theory Spec2Isabelle
  imports Main "HOL-Library.Word" "HOL-Library.Signed_Division"
begin

section \<open>Values shared by the backend manager and the UI\<close>

text \<open>
  Go's \<open>int32\<close> and \<open>int64\<close> are words of that width, read as two's complement by
  \<open>sint\<close>; \<open>+\<close> and \<open>-\<close> wrap as in Go. Go's \<open>int\<close> is 64 bits wide on the platforms the
  program is built for: the terminal dimensions and every size computed from them are
  64-bit words too, so that \<open>height - 6\<close> wraps where Go's does. Byte lengths, display
  widths, cursor indices and scroll offsets, which no arithmetic here can take out of
  range, are \<open>int\<close>. A Go string is its list of bytes. An \<open>error\<close> is the text that
  \<open>%v\<close> prints for it.
\<close>

type_synonym int32 = "32 word"
type_synonym int64 = "64 word"
type_synonym error = string

text \<open>
  Go's \<open>/\<close> on 64-bit integers: the quotient of the signed values, truncated towards
  zero.
\<close>

definition div64 :: "int64 \<Rightarrow> int64 \<Rightarrow> int64" where
  "div64 a b = word_of_int (sint a sdiv sint b)"

text \<open>\<open>%d\<close> of \<open>fmt.Sprintf\<close>: decimal digits, with a leading minus sign.\<close>

fun showNat :: "nat \<Rightarrow> string" where
  "showNat n =
     (if n < 10 then [''0123456789'' ! n]
      else showNat (n div 10) @ [''0123456789'' ! (n mod 10)])"

definition showInt :: "int \<Rightarrow> string" where
  "showInt i = (if i < 0 then ''-'' @ showNat (nat (- i)) else showNat (nat i))"

subsection \<open>internal/k8s/manager.go: the data the manager reports\<close>

record PodInfo =
  pod_Name :: string
  pod_Namespace :: string
  pod_Status :: string
  pod_Ready :: string
  pod_Restarts :: int32
  pod_Age :: string

record DeploymentInfo =
  dep_Name :: string
  dep_Namespace :: string
  dep_Ready :: string
  dep_UpToDate :: int32
  dep_Available :: int32
  dep_Replicas :: int32

record ServiceInfo =
  svc_Name :: string
  svc_Namespace :: string
  svc_Type :: string
  svc_ClusterIP :: string
  svc_ExternalIP :: string
  svc_Ports :: string

record PodMetrics =
  pm_Name :: string
  pm_Namespace :: string
  CPUUsageMillis :: int64
  MemoryUsageBytes :: int64
  CPUUsageFormatted :: string
  MemoryUsageFormatted :: string

record EnvVar =
  ev_Name :: string
  ev_Value :: string
  ev_ValueFrom :: string

text \<open>
  \<open>Containers\<close> is a Go map; the association list holds its entries in the order in
  which a \<open>range\<close> over it visits them.
\<close>

record PodEnvVars =
  pe_PodName :: string
  pe_Namespace :: string
  Containers :: "(string \<times> EnvVar list) list"

text \<open>\<open>pf_Cmd\<close> stands for the handle of the \<open>kubectl port-forward\<close> child process.\<close>

record PortForward =
  pf_PodName :: string
  pf_LocalPort :: string
  pf_RemotePort :: string
  pf_Cmd :: nat

text \<open>
  The manager object behind the pointer \<open>*k8s.Manager\<close>. Its client sets talk to the
  cluster; the UI only ever changes its namespace.
\<close>

record Manager =
  namespace :: string

definition SetNamespace :: "Manager \<Rightarrow> string \<Rightarrow> Manager" where
  "SetNamespace mgr ns = mgr\<lparr>namespace := ns\<rparr>"

text \<open>
  What the cluster answers to each call of the manager, given the manager's namespace.
  A read returns \<open>Inl\<close> the error or \<open>Inr\<close> the payload; a mutating call returns
  \<open>Some\<close> error or \<open>None\<close> (Go's \<open>nil\<close>).
\<close>

record backend =
  be_ListNamespaces :: "error + string list"
  be_ListDeployments :: "string \<Rightarrow> error + DeploymentInfo list"
  be_ListPods :: "string \<Rightarrow> error + PodInfo list"
  be_ListServices :: "string \<Rightarrow> error + ServiceInfo list"
  be_GetPodLogs :: "string \<Rightarrow> string \<Rightarrow> int64 \<Rightarrow> error + string"
  be_GetPodMetrics :: "string \<Rightarrow> string \<Rightarrow> error + PodMetrics"
  be_GetPodEnvVars :: "string \<Rightarrow> string \<Rightarrow> error + PodEnvVars"
  be_GetPodYAML :: "string \<Rightarrow> string \<Rightarrow> error + string"
  be_GetDeploymentYAML :: "string \<Rightarrow> string \<Rightarrow> error + string"
  be_GetServiceYAML :: "string \<Rightarrow> string \<Rightarrow> error + string"
  be_DeletePod :: "string \<Rightarrow> string \<Rightarrow> error option"
  be_DeleteDeployment :: "string \<Rightarrow> string \<Rightarrow> error option"
  be_ScaleDeployment :: "string \<Rightarrow> string \<Rightarrow> int32 \<Rightarrow> error option"
  be_StartPortForward :: "string \<Rightarrow> string \<Rightarrow> string \<Rightarrow> string \<Rightarrow> error + PortForward"

definition DeletePod :: "backend \<Rightarrow> Manager \<Rightarrow> string \<Rightarrow> error option" where
  "DeletePod B mgr name = be_DeletePod B (namespace mgr) name"

definition DeleteDeployment :: "backend \<Rightarrow> Manager \<Rightarrow> string \<Rightarrow> error option" where
  "DeleteDeployment B mgr name = be_DeleteDeployment B (namespace mgr) name"

definition ScaleDeployment :: "backend \<Rightarrow> Manager \<Rightarrow> string \<Rightarrow> int32 \<Rightarrow> error option" where
  "ScaleDeployment B mgr name replicas = be_ScaleDeployment B (namespace mgr) name replicas"

definition StartPortForward ::
  "backend \<Rightarrow> Manager \<Rightarrow> string \<Rightarrow> string \<Rightarrow> string \<Rightarrow> error + PortForward" where
  "StartPortForward B mgr podName localPort remotePort =
     be_StartPortForward B (namespace mgr) podName localPort remotePort"

section \<open>internal/ui/logviewer.go\<close>

text \<open>
  The bubbles viewport as far as the UI reads and writes it: its size, the text it was
  given and its scroll offset. How far \<open>GotoBottom\<close> scrolls is the library's business
  and is a parameter \<open>bottom\<close> wherever it matters.
\<close>

record viewport =
  v_Width :: int64
  v_Height :: int64
  v_content :: string
  v_YOffset :: int
  HighPerformanceRendering :: bool

definition viewport_New :: "int64 \<Rightarrow> int64 \<Rightarrow> viewport" where
  "viewport_New w h =
     \<lparr>v_Width = w, v_Height = h, v_content = [], v_YOffset = 0,
      HighPerformanceRendering = False\<rparr>"

definition viewport_zero :: viewport where
  "viewport_zero = viewport_New 0 0"

definition viewport_GotoBottom :: "(viewport \<Rightarrow> int) \<Rightarrow> viewport \<Rightarrow> viewport" where
  "viewport_GotoBottom bottom v = v\<lparr>v_YOffset := bottom v\<rparr>"

text \<open>
  \<open>viewport.SetContent\<close> stores the text and, when the offset now lies past the last
  line, scrolls to the bottom; the line count is \<open>strings.Split\<close> on newlines.
\<close>

definition lineCount :: "string \<Rightarrow> int" where
  "lineCount s = 1 + int (length (filter (\<lambda>c. c = CHR 0x0A) s))"

definition viewport_SetContent :: "(viewport \<Rightarrow> int) \<Rightarrow> string \<Rightarrow> viewport \<Rightarrow> viewport" where
  "viewport_SetContent bottom s v =
     (let v' = v\<lparr>v_content := s\<rparr>
      in if v_YOffset v' > lineCount s - 1 then viewport_GotoBottom bottom v' else v')"

record LogViewer =
  lv_viewport :: viewport
  lv_title :: string
  lv_content :: string
  lv_width :: int64
  lv_height :: int64
  autoScroll :: bool
  lv_ready :: bool

definition NewLogViewer :: "string \<Rightarrow> LogViewer" where
  "NewLogViewer title =
     \<lparr>lv_viewport = viewport_zero, lv_title = title, lv_content = [], lv_width = 0,
      lv_height = 0, autoScroll = True, lv_ready = False\<rparr>"

definition SetContent :: "(viewport \<Rightarrow> int) \<Rightarrow> LogViewer \<Rightarrow> string \<Rightarrow> LogViewer" where
  "SetContent bottom lv content =
     (let lv1 = lv\<lparr>lv_content := content\<rparr>;
          lv2 = lv1\<lparr>lv_viewport := viewport_SetContent bottom content (lv_viewport lv1)\<rparr>
      in if autoScroll lv2
         then lv2\<lparr>lv_viewport := viewport_GotoBottom bottom (lv_viewport lv2)\<rparr>
         else lv2)"

definition AppendContent :: "(viewport \<Rightarrow> int) \<Rightarrow> LogViewer \<Rightarrow> string \<Rightarrow> LogViewer" where
  "AppendContent bottom lv newContent =
     (let lv1 = (if lv_content lv \<noteq> []
                 then lv\<lparr>lv_content := lv_content lv @ [CHR 0x0A] @ newContent\<rparr>
                 else lv\<lparr>lv_content := newContent\<rparr>)
      in SetContent bottom lv1 (lv_content lv1))"

definition GetContent :: "LogViewer \<Rightarrow> string" where
  "GetContent lv = lv_content lv"

section \<open>The UI model (package ui)\<close>

datatype CategoryType = NamespacesCategory | DeploymentsCategory | PodsCategory | ServicesCategory

text \<open>\<open>CategoryType\<close> is an \<open>int\<close> enumerated by \<open>iota\<close>; the cycling keys compute on it.\<close>

fun int_of_category :: "CategoryType \<Rightarrow> int" where
  "int_of_category NamespacesCategory = 0"
| "int_of_category DeploymentsCategory = 1"
| "int_of_category PodsCategory = 2"
| "int_of_category ServicesCategory = 3"

definition category_of_int :: "int \<Rightarrow> CategoryType" where
  "category_of_int i =
     (if i = 0 then NamespacesCategory
      else if i = 1 then DeploymentsCategory
      else if i = 2 then PodsCategory
      else ServicesCategory)"

datatype RightPaneTab = LogsTab | StatsTab | EnvTab | ConfigTab | TopTab | ExecTab

subsection \<open>List items\<close>

datatype item =
    simpleItem string
  | namespaceItem string
  | deploymentItem DeploymentInfo
  | podItem PodInfo
  | serviceItem ServiceInfo

text \<open>The status icons are the UTF-8 bytes of a filled and of an empty circle.\<close>

definition iconFilled :: string where
  "iconFilled = [CHR 0xE2, CHR 0x97, CHR 0x8F]"

definition iconEmpty :: string where
  "iconEmpty = [CHR 0xE2, CHR 0x97, CHR 0x8B]"

fun Title :: "item \<Rightarrow> string" where
  "Title (simpleItem name) = name"
| "Title (namespaceItem name) = name"
| "Title (deploymentItem d) = dep_Name d"
| "Title (podItem p) = pod_Name p"
| "Title (serviceItem s) = svc_Name s"

fun Description :: "item \<Rightarrow> string" where
  "Description (simpleItem name) = []"
| "Description (namespaceItem name) = []"
| "Description (deploymentItem d) =
     (let statusIcon = (if dep_Available d <s dep_Replicas d then iconEmpty else iconFilled)
      in statusIcon @ '' Ready: '' @ dep_Ready d @ '' | Up-to-date: ''
           @ showInt (sint (dep_UpToDate d)))"
| "Description (podItem p) =
     (let statusIcon = (if pod_Status p \<noteq> ''Running'' then iconEmpty else iconFilled)
      in statusIcon @ '' '' @ pod_Status p @ '' | '' @ pod_Ready p)"
| "Description (serviceItem s) =
     svc_Type s @ '' | '' @ svc_ClusterIP s @ '' | '' @ svc_Ports s"

subsection \<open>The bubbles list, as the UI uses it\<close>

text \<open>
  A list pane holds its items, the index of the cursor and its size. \<open>SelectedItem\<close> is
  the item under the cursor, or nothing (Go's \<open>nil\<close>) when the index is out of range.
\<close>

record list_model =
  l_items :: "item list"
  l_index :: int
  l_width :: int64
  l_height :: int64

definition list_New :: "item list \<Rightarrow> int64 \<Rightarrow> int64 \<Rightarrow> list_model" where
  "list_New its w h = \<lparr>l_items = its, l_index = 0, l_width = w, l_height = h\<rparr>"

definition SelectedItem :: "list_model \<Rightarrow> item option" where
  "SelectedItem l =
     (if l_index l < 0 \<or> length (l_items l) = 0 \<or> int (length (l_items l)) \<le> l_index l
      then None
      else Some (l_items l ! nat (l_index l)))"

subsection \<open>Messages and commands\<close>

text \<open>
  A key message is the string \<open>msg.String()\<close> of the key. \<open>otherMsg\<close> is any message
  of the runtime or of a library component that \<open>Update\<close> has no case for.
\<close>

datatype msg =
    KeyMsg string
  | namespacesLoadedMsg "string list" "error option"
  | deploymentsLoadedMsg "DeploymentInfo list" "error option"
  | podsLoadedMsg "PodInfo list" "error option"
  | servicesLoadedMsg "ServiceInfo list" "error option"
  | podLogsLoadedMsg string "error option"
  | podMetricsLoadedMsg "PodMetrics option" "error option"
  | podEnvVarsLoadedMsg "PodEnvVars option" "error option"
  | resourceYAMLLoadedMsg string "error option"
  | tickMsg
  | WindowSizeMsg int64 int64
  | otherMsg nat

text \<open>
  A command is a closure the runtime runs later. Each load closure captures the model
  it was made from; \<open>CmdLoadResourceYAML\<close> carries the resource type and name it reads
  from that copy. \<open>CmdTick\<close> is the five-second timer, \<open>CmdQuit\<close> is \<open>tea.Quit\<close>, and
  \<open>CmdLib\<close> is a command handed back by a library component.
\<close>

datatype cmd =
    CmdLoadNamespaces
  | CmdLoadDeployments
  | CmdLoadPods
  | CmdLoadServices
  | CmdLoadPodLogs string
  | CmdLoadPodMetrics string
  | CmdLoadPodEnvVars string
  | CmdLoadResourceYAML string string
  | CmdTick
  | CmdQuit
  | CmdLib nat

subsection \<open>What the libraries decide\<close>

text \<open>
  The lipgloss and bubbles libraries are not part of the program. What the program asks
  of them is a parameter: the display width of a string, the style of the selected row,
  where a list puts its cursor after a message or after its items or size changed, and
  where a viewport scrolls to. A list never changes its own items and a viewport never
  changes its own text; the wrappers below build that in.
\<close>

record lib =
  lipgloss_Width :: "string \<Rightarrow> int"
  lipgloss_selected :: "string \<Rightarrow> string"
  list_cursor :: "msg \<Rightarrow> list_model \<Rightarrow> int"
  list_command :: "msg \<Rightarrow> list_model \<Rightarrow> nat list"
  list_paginate :: "list_model \<Rightarrow> int"
  viewport_scroll :: "msg \<Rightarrow> viewport \<Rightarrow> int"
  viewport_command :: "msg \<Rightarrow> viewport \<Rightarrow> nat list"
  viewport_bottom :: "viewport \<Rightarrow> int"

definition list_Update :: "lib \<Rightarrow> msg \<Rightarrow> list_model \<Rightarrow> list_model \<times> cmd list" where
  "list_Update L m l = (l\<lparr>l_index := list_cursor L m l\<rparr>, map CmdLib (list_command L m l))"

definition SetItems :: "lib \<Rightarrow> item list \<Rightarrow> list_model \<Rightarrow> list_model" where
  "SetItems L its l = (let l' = l\<lparr>l_items := its\<rparr> in l'\<lparr>l_index := list_paginate L l'\<rparr>)"

definition SetSize :: "lib \<Rightarrow> int64 \<Rightarrow> int64 \<Rightarrow> list_model \<Rightarrow> list_model" where
  "SetSize L w h l =
     (let l' = l\<lparr>l_width := w, l_height := h\<rparr> in l'\<lparr>l_index := list_paginate L l'\<rparr>)"

definition viewport_Update :: "lib \<Rightarrow> msg \<Rightarrow> viewport \<Rightarrow> viewport \<times> cmd list" where
  "viewport_Update L m v =
     (v\<lparr>v_YOffset := viewport_scroll L m v\<rparr>, map CmdLib (viewport_command L m v))"

text \<open>The display width of text that is printable ASCII throughout: one column a byte.\<close>

definition asciiWidth :: "string \<Rightarrow> int" where
  "asciiWidth s = int (length s)"

subsection \<open>compactDelegate.Render\<close>

text \<open>The row text: the title, then a space and the description when there is one.\<close>

definition rowText :: "item \<Rightarrow> string" where
  "rowText it = (if Description it \<noteq> [] then Title it @ '' '' @ Description it else Title it)"

text \<open>The loop of lines 157 to 159: drop the last byte while the row with its dots is too wide.\<close>

function trimToFit :: "(string \<Rightarrow> int) \<Rightarrow> int \<Rightarrow> string \<Rightarrow> string" where
  "trimToFit W maxWidth str =
     (if W (str @ ''...'') > maxWidth \<and> length str > 0
      then trimToFit W maxWidth (butlast str)
      else str)"
  by pat_completeness auto
termination
  by (relation "measure (\<lambda>(W, maxWidth, str). length str)") auto

declare trimToFit.simps [simp del]

definition fitRow :: "(string \<Rightarrow> int) \<Rightarrow> int \<Rightarrow> string \<Rightarrow> string" where
  "fitRow W maxWidth str =
     (if W str > maxWidth \<and> maxWidth > 3
      then trimToFit W maxWidth str @ ''...''
      else str)"

definition Render :: "lib \<Rightarrow> list_model \<Rightarrow> int \<Rightarrow> item \<Rightarrow> string" where
  "Render L l idx it =
     (let maxWidth = sint (l_width l - 2);
          str = fitRow (lipgloss_Width L) maxWidth (rowText it)
      in if idx = l_index l then lipgloss_selected L (''> '' @ str) else ''  '' @ str)"

subsection \<open>The model\<close>

record Model =
  width :: int64
  height :: int64
  ready :: bool
  activeCategory :: CategoryType
  namespacesList :: list_model
  deploymentsList :: list_model
  podsList :: list_model
  servicesList :: list_model
  selectedResource :: string
  activeTab :: RightPaneTab
  logsViewport :: viewport
  statsViewport :: viewport
  envViewport :: viewport
  configViewport :: viewport
  k8sManager :: "Manager option"
  k8sInitError :: "error option"
  currentNamespace :: string
  namespaces :: "string list"
  deployments :: "DeploymentInfo list"
  pods :: "PodInfo list"
  services :: "ServiceInfo list"
  currentMetrics :: "PodMetrics option"
  currentEnvVars :: "PodEnvVars option"
  currentYAML :: string
  selectedResourceType :: string
  activePortForwards :: "string \<rightharpoonup> PortForward"
  systemdManager :: "unit option"
  systemdInitError :: "error option"
  statusMessage :: string
  err :: "error option"
  showConfirmDialog :: bool
  confirmAction :: string
  confirmResource :: string
  confirmReplicas :: int32
  showHelp :: bool

text \<open>
  \<open>NewModel\<close> takes what \<open>k8s.NewManager()\<close> and \<open>systemd.NewManager()\<close> returned:
  the manager or the error, and the systemd handle or \<open>nil\<close>. The two marks in the
  status line are the UTF-8 bytes of a warning sign and of a check mark.
\<close>

definition NewModel :: "error + Manager \<Rightarrow> unit option \<Rightarrow> Model" where
  "NewModel k8s sysd =
     \<lparr>width = 0, height = 0, ready = False,
      activeCategory = NamespacesCategory,
      namespacesList = list_New [] 0 0,
      deploymentsList = list_New [] 0 0,
      podsList = list_New [] 0 0,
      servicesList = list_New [] 0 0,
      selectedResource = [],
      activeTab = LogsTab,
      logsViewport = viewport_zero, statsViewport = viewport_zero,
      envViewport = viewport_zero, configViewport = viewport_zero,
      k8sManager = (case k8s of Inl e \<Rightarrow> None | Inr mgr \<Rightarrow> Some mgr),
      k8sInitError = (case k8s of Inl e \<Rightarrow> Some e | Inr mgr \<Rightarrow> None),
      currentNamespace = ''default'',
      namespaces = [], deployments = [], pods = [], services = [],
      currentMetrics = None, currentEnvVars = None, currentYAML = [],
      selectedResourceType = [],
      activePortForwards = Map.empty,
      systemdManager = sysd, systemdInitError = None,
      statusMessage =
        (case k8s of
           Inl e \<Rightarrow> [CHR 0xE2, CHR 0x9A, CHR 0xA0] @ '' K8s init failed: '' @ e
         | Inr mgr \<Rightarrow> [CHR 0xE2, CHR 0x9C, CHR 0x93] @ '' K8s connected''),
      err = None,
      showConfirmDialog = False, confirmAction = [], confirmResource = [],
      confirmReplicas = 0, showHelp = False\<rparr>"

subsection \<open>The load commands and the timer\<close>

definition loadNamespaces :: "Model \<Rightarrow> cmd" where
  "loadNamespaces m = CmdLoadNamespaces"

definition loadDeployments :: "Model \<Rightarrow> cmd" where
  "loadDeployments m = CmdLoadDeployments"

definition loadPods :: "Model \<Rightarrow> cmd" where
  "loadPods m = CmdLoadPods"

definition loadServices :: "Model \<Rightarrow> cmd" where
  "loadServices m = CmdLoadServices"

definition loadPodLogs :: "Model \<Rightarrow> string \<Rightarrow> cmd" where
  "loadPodLogs m podName = CmdLoadPodLogs podName"

definition loadPodMetrics :: "Model \<Rightarrow> string \<Rightarrow> cmd" where
  "loadPodMetrics m podName = CmdLoadPodMetrics podName"

definition loadPodEnvVars :: "Model \<Rightarrow> string \<Rightarrow> cmd" where
  "loadPodEnvVars m podName = CmdLoadPodEnvVars podName"

definition loadResourceYAML :: "Model \<Rightarrow> cmd" where
  "loadResourceYAML m = CmdLoadResourceYAML (selectedResourceType m) (selectedResource m)"

definition tick :: cmd where
  "tick = CmdTick"

definition Init :: "Model \<Rightarrow> cmd list" where
  "Init m = [loadNamespaces m, loadDeployments m, loadPods m, loadServices m, tick]"

text \<open>
  Running a command: the body of its closure. The manager handle a closure holds is the
  one of the model it was made from, and no message ever replaces that handle, so the
  handle is passed in. A load closure first checks the handle for \<open>nil\<close>. \<open>CmdQuit\<close>
  ends the program and delivers nothing.
\<close>

definition notInitialized :: error where
  "notInitialized = ''k8s manager not initialized''"

fun runCmd :: "backend \<Rightarrow> Manager option \<Rightarrow> cmd \<Rightarrow> msg option" where
  "runCmd B None CmdLoadNamespaces = Some (namespacesLoadedMsg [] (Some notInitialized))"
| "runCmd B None CmdLoadDeployments = Some (deploymentsLoadedMsg [] (Some notInitialized))"
| "runCmd B None CmdLoadPods = Some (podsLoadedMsg [] (Some notInitialized))"
| "runCmd B None CmdLoadServices = Some (servicesLoadedMsg [] (Some notInitialized))"
| "runCmd B None (CmdLoadPodLogs podName) = Some (podLogsLoadedMsg [] (Some notInitialized))"
| "runCmd B None (CmdLoadPodMetrics podName) =
     Some (podMetricsLoadedMsg None (Some notInitialized))"
| "runCmd B None (CmdLoadPodEnvVars podName) =
     Some (podEnvVarsLoadedMsg None (Some notInitialized))"
| "runCmd B None (CmdLoadResourceYAML ty name) =
     Some (resourceYAMLLoadedMsg [] (Some notInitialized))"
| "runCmd B (Some mgr) CmdLoadNamespaces =
     Some (case be_ListNamespaces B of
             Inl e \<Rightarrow> namespacesLoadedMsg [] (Some e)
           | Inr ns \<Rightarrow> namespacesLoadedMsg ns None)"
| "runCmd B (Some mgr) CmdLoadDeployments =
     Some (case be_ListDeployments B (namespace mgr) of
             Inl e \<Rightarrow> deploymentsLoadedMsg [] (Some e)
           | Inr ds \<Rightarrow> deploymentsLoadedMsg ds None)"
| "runCmd B (Some mgr) CmdLoadPods =
     Some (case be_ListPods B (namespace mgr) of
             Inl e \<Rightarrow> podsLoadedMsg [] (Some e)
           | Inr ps \<Rightarrow> podsLoadedMsg ps None)"
| "runCmd B (Some mgr) CmdLoadServices =
     Some (case be_ListServices B (namespace mgr) of
             Inl e \<Rightarrow> servicesLoadedMsg [] (Some e)
           | Inr ss \<Rightarrow> servicesLoadedMsg ss None)"
| "runCmd B (Some mgr) (CmdLoadPodLogs podName) =
     Some (case be_GetPodLogs B (namespace mgr) podName 100 of
             Inl e \<Rightarrow> podLogsLoadedMsg [] (Some e)
           | Inr logs \<Rightarrow> podLogsLoadedMsg logs None)"
| "runCmd B (Some mgr) (CmdLoadPodMetrics podName) =
     Some (case be_GetPodMetrics B (namespace mgr) podName of
             Inl e \<Rightarrow> podMetricsLoadedMsg None (Some e)
           | Inr pm \<Rightarrow> podMetricsLoadedMsg (Some pm) None)"
| "runCmd B (Some mgr) (CmdLoadPodEnvVars podName) =
     Some (case be_GetPodEnvVars B (namespace mgr) podName of
             Inl e \<Rightarrow> podEnvVarsLoadedMsg None (Some e)
           | Inr ev \<Rightarrow> podEnvVarsLoadedMsg (Some ev) None)"
| "runCmd B (Some mgr) (CmdLoadResourceYAML ty name) =
     Some (case (if ty = ''pod'' then be_GetPodYAML B (namespace mgr) name
                 else if ty = ''deployment'' then be_GetDeploymentYAML B (namespace mgr) name
                 else if ty = ''service'' then be_GetServiceYAML B (namespace mgr) name
                 else Inl (''unknown resource type: '' @ ty)) of
             Inl e \<Rightarrow> resourceYAMLLoadedMsg [] (Some e)
           | Inr y \<Rightarrow> resourceYAMLLoadedMsg y None)"
| "runCmd B mgr CmdTick = Some tickMsg"
| "runCmd B mgr CmdQuit = None"
| "runCmd B mgr (CmdLib n) = Some (otherMsg n)"

subsection \<open>The text of the Stats, Env and Config tabs\<close>

definition nl :: string where
  "nl = [CHR 0x0A]"

definition metricsNote :: string where
  "metricsNote =
     nl @ nl @ ''Note: Metrics require metrics-server to be installed in the cluster.'' @ nl
     @ ''Install with: kubectl apply -f https://github.com/kubernetes-sigs/metrics-server/releases/latest/download/components.yaml''"

text \<open>The bar is drawn with the UTF-8 bytes of a full block and of a light shade.\<close>

definition createBar :: "int64 \<Rightarrow> int64 \<Rightarrow> string" where
  "createBar percent0 w =
     (let percent = (if percent0 <s 0 then 0 else percent0);
          percent = (if 100 <s percent then 100 else percent);
          filled = div64 (percent * w) 100;
          empty = w - filled
      in concat (replicate (nat (sint filled)) [CHR 0xE2, CHR 0x96, CHR 0x88])
         @ concat (replicate (nat (sint empty)) [CHR 0xE2, CHR 0x96, CHR 0x91]))"

definition renderStats :: "Model \<Rightarrow> string" where
  "renderStats m =
     (if selectedResource m = [] then ''Select a pod to view stats''
      else case currentMetrics m of
        None \<Rightarrow> ''Loading metrics for '' @ selectedResource m @ ''...'' @ metricsNote
      | Some pm \<Rightarrow>
         (let cpu = div64 (CPUUsageMillis pm * 100) 1000;
              cpuPercent = (if 100 <s cpu then 100 else cpu);
              mem = div64 (MemoryUsageBytes pm * 100) (1024 * 1024 * 1024);
              memPercent = (if 100 <s mem then 100 else mem);
              cpuBar = createBar cpuPercent 20;
              memBar = createBar memPercent 20
          in ''Resource Metrics for: '' @ pm_Name pm @ nl @ nl
             @ ''CPU Usage:    '' @ CPUUsageFormatted pm @ ''  '' @ cpuBar
             @ '' ('' @ showInt (sint cpuPercent) @ ''%)'' @ nl
             @ ''Memory Usage: '' @ MemoryUsageFormatted pm @ ''  '' @ memBar
             @ '' ('' @ showInt (sint memPercent) @ ''%)'' @ nl @ nl
             @ ''Raw Values:'' @ nl
             @ ''  CPU:    '' @ CPUUsageFormatted pm @ nl
             @ ''  Memory: '' @ MemoryUsageFormatted pm @ nl @ nl
             @ ''Namespace: '' @ pm_Namespace pm))"

definition heavyRule :: string where
  "heavyRule = concat (replicate 3 [CHR 0xE2, CHR 0x94, CHR 0x81])"

definition renderEnvVar :: "EnvVar \<Rightarrow> string" where
  "renderEnvVar env =
     ''  '' @ ev_Name env @ nl
     @ (if ev_Value env \<noteq> [] then ''    = '' @ ev_Value env @ nl else [])
     @ (if ev_ValueFrom env \<noteq> []
        then ''    '' @ [CHR 0xE2, CHR 0x86, CHR 0x92] @ '' '' @ ev_ValueFrom env @ nl else [])
     @ nl"

definition renderContainer :: "string \<times> EnvVar list \<Rightarrow> string" where
  "renderContainer c =
     heavyRule @ '' Container: '' @ fst c @ '' '' @ heavyRule @ nl @ nl
     @ (if length (snd c) = 0 then ''  (no environment variables)'' @ nl @ nl
        else concat (map renderEnvVar (snd c)))"

definition renderEnv :: "Model \<Rightarrow> string" where
  "renderEnv m =
     (if selectedResource m = [] then ''Select a pod to view environment variables''
      else case currentEnvVars m of
        None \<Rightarrow> ''Loading environment variables for '' @ selectedResource m @ ''...''
      | Some ev \<Rightarrow>
         (if length (Containers ev) = 0
          then ''No environment variables found for '' @ pe_PodName ev
          else ''Environment Variables for: '' @ pe_PodName ev @ nl
               @ ''Namespace: '' @ pe_Namespace ev @ nl @ nl
               @ concat (map renderContainer (Containers ev))))"

definition renderConfig :: "Model \<Rightarrow> string" where
  "renderConfig m =
     (if selectedResource m = [] then ''Select a resource to view YAML configuration''
      else if currentYAML m = [] then ''Loading YAML for '' @ selectedResource m @ ''...''
      else ''YAML Configuration for '' @ selectedResourceType m @ '': '' @ selectedResource m
           @ '' (Namespace: '' @ currentNamespace m @ '')'' @ nl @ nl @ currentYAML m)"


section \<open>The reducer: Model.Update\<close>

text \<open>
  \<open>Update\<close> returns the new model and the commands to run (an empty list is Go's
  \<open>nil\<close> command, a longer one is a \<open>tea.Batch\<close>), or the panic that ends the program.
  The only call that can panic is a method call through a \<open>nil\<close> manager handle.
\<close>

datatype panic = NilPointerDereference

subsection \<open>performConfirmedAction\<close>

definition performConfirmedAction :: "backend \<Rightarrow> Model \<Rightarrow> Model \<times> cmd list" where
  "performConfirmedAction B m =
     (if confirmAction m = ''delete-pod'' then
        (case k8sManager m of
           None \<Rightarrow> (m\<lparr>statusMessage := ''Error: k8s manager not initialized''\<rparr>, [])
         | Some mgr \<Rightarrow>
            (case DeletePod B mgr (confirmResource m) of
               Some e \<Rightarrow> (m\<lparr>statusMessage := ''Error deleting pod: '' @ e\<rparr>, [])
             | None \<Rightarrow>
                (let m' = m\<lparr>statusMessage := ''Deleted pod: '' @ confirmResource m\<rparr>
                 in (m', [loadPods m']))))
      else if confirmAction m = ''delete-deployment'' then
        (case k8sManager m of
           None \<Rightarrow> (m\<lparr>statusMessage := ''Error: k8s manager not initialized''\<rparr>, [])
         | Some mgr \<Rightarrow>
            (case DeleteDeployment B mgr (confirmResource m) of
               Some e \<Rightarrow> (m\<lparr>statusMessage := ''Error deleting deployment: '' @ e\<rparr>, [])
             | None \<Rightarrow>
                (let m' = m\<lparr>statusMessage := ''Deleted deployment: '' @ confirmResource m\<rparr>
                 in (m', [loadDeployments m']))))
      else if confirmAction m = ''scale-up'' \<or> confirmAction m = ''scale-down'' then
        (case k8sManager m of
           None \<Rightarrow> (m\<lparr>statusMessage := ''Error: k8s manager not initialized''\<rparr>, [])
         | Some mgr \<Rightarrow>
            (case ScaleDeployment B mgr (confirmResource m) (confirmReplicas m) of
               Some e \<Rightarrow> (m\<lparr>statusMessage := ''Error scaling: '' @ e\<rparr>, [])
             | None \<Rightarrow>
                (let m' = m\<lparr>statusMessage := ''Scaled '' @ confirmResource m @ '' to ''
                              @ showInt (sint (confirmReplicas m)) @ '' replicas''\<rparr>
                 in (m', [loadDeployments m']))))
      else (m\<lparr>statusMessage := ''Unknown action''\<rparr>, []))"

subsection \<open>Keys while an overlay is showing (lines 403 to 429)\<close>

definition Update_confirmKey :: "backend \<Rightarrow> Model \<Rightarrow> string \<Rightarrow> Model \<times> cmd list" where
  "Update_confirmKey B m k =
     (if k = ''y'' \<or> k = ''Y'' then performConfirmedAction B (m\<lparr>showConfirmDialog := False\<rparr>)
      else if k = ''n'' \<or> k = ''N'' \<or> k = ''esc'' \<or> k = ''q'' then
        (m\<lparr>showConfirmDialog := False, statusMessage := ''Action cancelled''\<rparr>, [])
      else (m, []))"

definition Update_helpKey :: "Model \<Rightarrow> string \<Rightarrow> Model \<times> cmd list" where
  "Update_helpKey m k =
     (if k = ''?'' \<or> k = ''q'' \<or> k = ''esc'' then (m\<lparr>showHelp := False\<rparr>, [])
      else (m, []))"

subsection \<open>The list and viewport updates after the switch (lines 792 to 872)\<close>

definition updateActiveList :: "lib \<Rightarrow> Model \<Rightarrow> msg \<Rightarrow> panic + Model \<times> cmd list" where
  "updateActiveList L m msg =
     (case activeCategory m of
        NamespacesCategory \<Rightarrow>
          (let (l, c) = list_Update L msg (namespacesList m);
               m1 = m\<lparr>namespacesList := l\<rparr>
           in case SelectedItem (namespacesList m1) of
                Some (namespaceItem name) \<Rightarrow>
                  (if currentNamespace m1 \<noteq> name then
                     (case k8sManager m1 of
                        None \<Rightarrow> Inl NilPointerDereference
                      | Some mgr \<Rightarrow>
                         (let m2 = m1\<lparr>currentNamespace := name,
                                       k8sManager := Some (SetNamespace mgr name),
                                       statusMessage := ''Switched to namespace: '' @ name\<rparr>
                          in Inr (m2, [loadDeployments m2, loadPods m2, loadServices m2] @ c)))
                   else Inr (m1, c))
              | _ \<Rightarrow> Inr (m1, c))
      | DeploymentsCategory \<Rightarrow>
          (let (l, c) = list_Update L msg (deploymentsList m);
               m1 = m\<lparr>deploymentsList := l\<rparr>
           in case SelectedItem (deploymentsList m1) of
                Some (deploymentItem d) \<Rightarrow>
                  (if selectedResource m1 \<noteq> dep_Name d then
                     (let m2 = m1\<lparr>selectedResource := dep_Name d,
                                   selectedResourceType := ''deployment'',
                                   statusMessage := ''Selected: '' @ dep_Name d,
                                   activeTab := ConfigTab\<rparr>
                      in Inr (m2, [loadResourceYAML m2] @ c))
                   else Inr (m1, c))
              | _ \<Rightarrow> Inr (m1, c))
      | PodsCategory \<Rightarrow>
          (let (l, c) = list_Update L msg (podsList m);
               m1 = m\<lparr>podsList := l\<rparr>
           in case SelectedItem (podsList m1) of
                Some (podItem p) \<Rightarrow>
                  (if selectedResource m1 \<noteq> pod_Name p then
                     (let m2 = m1\<lparr>selectedResource := pod_Name p,
                                   selectedResourceType := ''pod'',
                                   statusMessage := ''Selected: '' @ pod_Name p,
                                   activeTab := LogsTab\<rparr>
                      in Inr (m2, [loadPodLogs m2 (pod_Name p), loadPodMetrics m2 (pod_Name p),
                                   loadPodEnvVars m2 (pod_Name p), loadResourceYAML m2] @ c))
                   else Inr (m1, c))
              | _ \<Rightarrow> Inr (m1, c))
      | ServicesCategory \<Rightarrow>
          (let (l, c) = list_Update L msg (servicesList m);
               m1 = m\<lparr>servicesList := l\<rparr>
           in case SelectedItem (servicesList m1) of
                Some (serviceItem sv) \<Rightarrow>
                  (if selectedResource m1 \<noteq> svc_Name sv then
                     (let m2 = m1\<lparr>selectedResource := svc_Name sv,
                                   selectedResourceType := ''service'',
                                   statusMessage := ''Selected: '' @ svc_Name sv,
                                   activeTab := ConfigTab\<rparr>
                      in Inr (m2, [loadResourceYAML m2] @ c))
                   else Inr (m1, c))
              | _ \<Rightarrow> Inr (m1, c)))"

definition updateActiveViewport :: "lib \<Rightarrow> Model \<Rightarrow> msg \<Rightarrow> Model \<times> cmd list" where
  "updateActiveViewport L m msg =
     (case activeTab m of
        LogsTab \<Rightarrow>
          (let (v, c) = viewport_Update L msg (logsViewport m) in (m\<lparr>logsViewport := v\<rparr>, c))
      | StatsTab \<Rightarrow>
          (let (v, c) = viewport_Update L msg (statsViewport m) in (m\<lparr>statsViewport := v\<rparr>, c))
      | EnvTab \<Rightarrow>
          (let (v, c) = viewport_Update L msg (envViewport m) in (m\<lparr>envViewport := v\<rparr>, c))
      | ConfigTab \<Rightarrow>
          (let (v, c) = viewport_Update L msg (configViewport m) in (m\<lparr>configViewport := v\<rparr>, c))
      | _ \<Rightarrow> (m, []))"

definition Update_lists :: "lib \<Rightarrow> Model \<Rightarrow> msg \<Rightarrow> panic + Model \<times> cmd list" where
  "Update_lists L m msg =
     (case updateActiveList L m msg of
        Inl p \<Rightarrow> Inl p
      | Inr (m1, cmds) \<Rightarrow>
          (let (m2, c) = updateActiveViewport L m1 msg in Inr (m2, cmds @ c)))"

subsection \<open>Keys in normal mode (lines 431 to 647)\<close>

definition key_jump2 :: "Model \<Rightarrow> Model \<times> cmd list" where
  "key_jump2 m =
     (let m1 = m\<lparr>activeCategory := DeploymentsCategory\<rparr>
      in case SelectedItem (deploymentsList m1) of
           Some (deploymentItem d) \<Rightarrow>
             (let m2 = m1\<lparr>selectedResource := dep_Name d,
                           selectedResourceType := ''deployment'',
                           activeTab := ConfigTab\<rparr>
              in (m2, [loadResourceYAML m2]))
         | _ \<Rightarrow> (m1, []))"

definition key_jump3 :: "Model \<Rightarrow> Model \<times> cmd list" where
  "key_jump3 m =
     (let m1 = m\<lparr>activeCategory := PodsCategory\<rparr>
      in case SelectedItem (podsList m1) of
           Some (podItem p) \<Rightarrow>
             (let m2 = m1\<lparr>selectedResource := pod_Name p,
                           selectedResourceType := ''pod'',
                           activeTab := LogsTab\<rparr>
              in (m2, [loadPodLogs m2 (pod_Name p), loadPodMetrics m2 (pod_Name p),
                       loadPodEnvVars m2 (pod_Name p), loadResourceYAML m2]))
         | _ \<Rightarrow> (m1, []))"

definition key_jump4 :: "Model \<Rightarrow> Model \<times> cmd list" where
  "key_jump4 m =
     (let m1 = m\<lparr>activeCategory := ServicesCategory\<rparr>
      in case SelectedItem (servicesList m1) of
           Some (serviceItem sv) \<Rightarrow>
             (let m2 = m1\<lparr>selectedResource := svc_Name sv,
                           selectedResourceType := ''service'',
                           activeTab := ConfigTab\<rparr>
              in (m2, [loadResourceYAML m2]))
         | _ \<Rightarrow> (m1, []))"

definition key_enter :: "Model \<Rightarrow> panic + Model \<times> cmd list" where
  "key_enter m =
     (case activeCategory m of
        NamespacesCategory \<Rightarrow>
          (case SelectedItem (namespacesList m) of
             Some (namespaceItem name) \<Rightarrow>
               (case k8sManager m of
                  None \<Rightarrow> Inl NilPointerDereference
                | Some mgr \<Rightarrow>
                   (let m1 = m\<lparr>currentNamespace := name,
                                 k8sManager := Some (SetNamespace mgr name),
                                 statusMessage := ''Switched to namespace: '' @ name,
                                 activeCategory := PodsCategory\<rparr>
                    in Inr (m1, [loadDeployments m1, loadPods m1, loadServices m1])))
           | _ \<Rightarrow> Inr (m, []))
      | DeploymentsCategory \<Rightarrow>
          (case SelectedItem (deploymentsList m) of
             Some (deploymentItem d) \<Rightarrow>
               (let m1 = m\<lparr>selectedResource := dep_Name d,
                             selectedResourceType := ''deployment'',
                             statusMessage := ''Selected deployment: '' @ dep_Name d,
                             activeTab := ConfigTab\<rparr>
                in Inr (m1, [loadResourceYAML m1]))
           | _ \<Rightarrow> Inr (m, []))
      | PodsCategory \<Rightarrow>
          (case SelectedItem (podsList m) of
             Some (podItem p) \<Rightarrow>
               (let m1 = m\<lparr>selectedResource := pod_Name p,
                             selectedResourceType := ''pod'',
                             statusMessage := ''Selected: '' @ pod_Name p,
                             activeTab := LogsTab\<rparr>
                in Inr (m1, [loadPodLogs m1 (pod_Name p), loadPodMetrics m1 (pod_Name p),
                             loadPodEnvVars m1 (pod_Name p), loadResourceYAML m1]))
           | _ \<Rightarrow> Inr (m, []))
      | ServicesCategory \<Rightarrow> Inr (m, []))"

definition key_delete :: "Model \<Rightarrow> Model \<times> cmd list" where
  "key_delete m =
     (if activeCategory m = PodsCategory then
        (case SelectedItem (podsList m) of
           Some (podItem p) \<Rightarrow>
             (m\<lparr>showConfirmDialog := True, confirmAction := ''delete-pod'',
                confirmResource := pod_Name p\<rparr>, [])
         | _ \<Rightarrow> (m, []))
      else if activeCategory m = DeploymentsCategory then
        (case SelectedItem (deploymentsList m) of
           Some (deploymentItem d) \<Rightarrow>
             (m\<lparr>showConfirmDialog := True, confirmAction := ''delete-deployment'',
                confirmResource := dep_Name d\<rparr>, [])
         | _ \<Rightarrow> (m, []))
      else (m, []))"

definition key_scaleUp :: "Model \<Rightarrow> Model \<times> cmd list" where
  "key_scaleUp m =
     (if activeCategory m = DeploymentsCategory then
        (case SelectedItem (deploymentsList m) of
           Some (deploymentItem d) \<Rightarrow>
             (m\<lparr>showConfirmDialog := True, confirmAction := ''scale-up'',
                confirmResource := dep_Name d,
                confirmReplicas := dep_Replicas d + 1\<rparr>, [])
         | _ \<Rightarrow> (m, []))
      else (m, []))"

definition key_scaleDown :: "Model \<Rightarrow> Model \<times> cmd list" where
  "key_scaleDown m =
     (if activeCategory m = DeploymentsCategory then
        (case SelectedItem (deploymentsList m) of
           Some (deploymentItem d) \<Rightarrow>
             (if 0 <s dep_Replicas d then
                (m\<lparr>showConfirmDialog := True, confirmAction := ''scale-down'',
                   confirmResource := dep_Name d,
                   confirmReplicas := dep_Replicas d - 1\<rparr>, [])
              else (m, []))
         | _ \<Rightarrow> (m, []))
      else (m, []))"

definition key_portForward :: "backend \<Rightarrow> Model \<Rightarrow> Model \<times> cmd list" where
  "key_portForward B m =
     (if activeCategory m = PodsCategory then
        (case SelectedItem (podsList m) of
           Some (podItem p) \<Rightarrow>
             (case k8sManager m of
                Some mgr \<Rightarrow>
                  (case StartPortForward B mgr (pod_Name p) ''8080'' ''80'' of
                     Inl e \<Rightarrow> (m\<lparr>statusMessage := ''Error starting port-forward: '' @ e\<rparr>, [])
                   | Inr pf \<Rightarrow>
                      (m\<lparr>activePortForwards :=
                           (activePortForwards m)(pod_Name p @ '':'' @ ''8080'' \<mapsto> pf),
                         statusMessage := ''Port-forward started: localhost:'' @ ''8080''
                           @ '' -> '' @ pod_Name p @ '':'' @ ''80''\<rparr>, []))
              | None \<Rightarrow> (m, []))
         | _ \<Rightarrow> (m, []))
      else (m, []))"

definition key_stopPortForwards :: "Model \<Rightarrow> Model \<times> cmd list" where
  "key_stopPortForwards m =
     (case k8sManager m of
        Some mgr \<Rightarrow>
          (m\<lparr>activePortForwards := Map.empty,
             statusMessage := ''Stopped all port-forwards''\<rparr>, [])
      | None \<Rightarrow> (m, []))"

text \<open>
  The switch on the key. Quitting stops the port-forward processes and closes the
  systemd handle, which changes nothing in the model. A key with no case of its own
  leaves the switch and reaches the list and viewport updates.
\<close>

definition Update_key :: "lib \<Rightarrow> backend \<Rightarrow> Model \<Rightarrow> string \<Rightarrow> panic + Model \<times> cmd list" where
  "Update_key L B m k =
     (if k = ''ctrl+c'' \<or> k = ''q'' then Inr (m, [CmdQuit])
      else if k = ''?'' then Inr (m\<lparr>showHelp := \<not> showHelp m\<rparr>, [])
      else if k = ''tab'' then
        Inr (m\<lparr>activeCategory :=
                 category_of_int ((int_of_category (activeCategory m) + 1) smod 4)\<rparr>, [])
      else if k = ''shift+tab'' then
        Inr (m\<lparr>activeCategory :=
                 category_of_int ((int_of_category (activeCategory m) - 1 + 4) smod 4)\<rparr>, [])
      else if k = ''1'' then Inr (m\<lparr>activeCategory := NamespacesCategory\<rparr>, [])
      else if k = ''2'' then Inr (key_jump2 m)
      else if k = ''3'' then Inr (key_jump3 m)
      else if k = ''4'' then Inr (key_jump4 m)
      else if k = ''l'' then Inr (m\<lparr>activeTab := LogsTab\<rparr>, [])
      else if k = ''s'' then Inr (m\<lparr>activeTab := StatsTab\<rparr>, [])
      else if k = ''e'' then Inr (m\<lparr>activeTab := EnvTab\<rparr>, [])
      else if k = ''c'' then Inr (m\<lparr>activeTab := ConfigTab\<rparr>, [])
      else if k = ''t'' then Inr (m\<lparr>activeTab := TopTab\<rparr>, [])
      else if k = ''x'' then Inr (m\<lparr>activeTab := ExecTab\<rparr>, [])
      else if k = ''r'' then
        (let m1 = m\<lparr>statusMessage := ''Refreshing...''\<rparr>
         in Inr (m1, [loadNamespaces m1, loadDeployments m1, loadPods m1, loadServices m1]))
      else if k = ''enter'' then key_enter m
      else if k = ''d'' then Inr (key_delete m)
      else if k = ''+'' \<or> k = ''='' then Inr (key_scaleUp m)
      else if k = ''-'' \<or> k = ''_'' then Inr (key_scaleDown m)
      else if k = ''p'' then Inr (key_portForward B m)
      else if k = ''P'' then Inr (key_stopPortForwards m)
      else Update_lists L m (KeyMsg k))"

subsection \<open>The resize message (lines 748 to 789)\<close>

definition sectionHeight :: "int64 \<Rightarrow> int64" where
  "sectionHeight h =
     (let totalAvailable = h - 6;
          sh = div64 totalAvailable 4 - 2
      in if sh <s 3 then 3 else sh)"

definition Update_windowSize :: "lib \<Rightarrow> Model \<Rightarrow> int64 \<Rightarrow> int64 \<Rightarrow> Model" where
  "Update_windowSize L m w h =
     (let m1 = m\<lparr>width := w, height := h, ready := True\<rparr>;
          leftPaneWidth = div64 (width m1) 3;
          rightPaneWidth = width m1 - leftPaneWidth - 4;
          sh = sectionHeight (height m1);
          m2 = m1\<lparr>namespacesList := SetSize L (leftPaneWidth - 4) sh (namespacesList m1),
                    deploymentsList := SetSize L (leftPaneWidth - 4) sh (deploymentsList m1),
                    podsList := SetSize L (leftPaneWidth - 4) sh (podsList m1),
                    servicesList := SetSize L (leftPaneWidth - 4) sh (servicesList m1)\<rparr>
      in if \<not> HighPerformanceRendering (logsViewport m2) then
           m2\<lparr>logsViewport := viewport_New (rightPaneWidth - 4) (height m2 - 12),
              statsViewport := viewport_New (rightPaneWidth - 4) (height m2 - 12),
              envViewport := viewport_New (rightPaneWidth - 4) (height m2 - 12),
              configViewport := viewport_New (rightPaneWidth - 4) (height m2 - 12)\<rparr>
         else
           m2\<lparr>logsViewport := (logsViewport m2)\<lparr>v_Width := rightPaneWidth - 4,
                                                  v_Height := height m2 - 12\<rparr>,
              statsViewport := (statsViewport m2)\<lparr>v_Width := rightPaneWidth - 4,
                                                    v_Height := height m2 - 12\<rparr>,
              envViewport := (envViewport m2)\<lparr>v_Width := rightPaneWidth - 4,
                                                v_Height := height m2 - 12\<rparr>,
              configViewport := (configViewport m2)\<lparr>v_Width := rightPaneWidth - 4,
                                                      v_Height := height m2 - 12\<rparr>\<rparr>)"

subsection \<open>Update\<close>

fun Update :: "lib \<Rightarrow> backend \<Rightarrow> Model \<Rightarrow> msg \<Rightarrow> panic + Model \<times> cmd list" where
  "Update L B m (KeyMsg k) =
     (if showConfirmDialog m then Inr (Update_confirmKey B m k)
      else if showHelp m then Inr (Update_helpKey m k)
      else Update_key L B m k)"
| "Update L B m (namespacesLoadedMsg ns e) =
     (case e of
        Some er \<Rightarrow> Inr (m\<lparr>statusMessage := ''Error loading namespaces: '' @ er\<rparr>, [])
      | None \<Rightarrow>
         Inr (m\<lparr>namespaces := ns,
                namespacesList := SetItems L (map namespaceItem ns) (namespacesList m)\<rparr>, []))"
| "Update L B m (deploymentsLoadedMsg ds e) =
     (case e of
        Some er \<Rightarrow> Inr (m\<lparr>statusMessage := ''Error loading deployments: '' @ er\<rparr>, [])
      | None \<Rightarrow>
         Inr (m\<lparr>deployments := ds,
                deploymentsList := SetItems L (map deploymentItem ds) (deploymentsList m)\<rparr>, []))"
| "Update L B m (podsLoadedMsg ps e) =
     (case e of
        Some er \<Rightarrow> Inr (m\<lparr>statusMessage := ''Error loading pods: '' @ er\<rparr>, [])
      | None \<Rightarrow>
         (let m1 = m\<lparr>pods := ps, podsList := SetItems L (map podItem ps) (podsList m)\<rparr>
          in if statusMessage m1 = ''Refreshing...''
             then Inr (m1\<lparr>statusMessage := ''Loaded '' @ showInt (int (length ps))
                            @ '' pods from '' @ currentNamespace m1\<rparr>, [])
             else Inr (m1, [])))"
| "Update L B m (servicesLoadedMsg ss e) =
     (case e of
        Some er \<Rightarrow> Inr (m\<lparr>statusMessage := ''Error loading services: '' @ er\<rparr>, [])
      | None \<Rightarrow>
         Inr (m\<lparr>services := ss,
                servicesList := SetItems L (map serviceItem ss) (servicesList m)\<rparr>, []))"
| "Update L B m (podLogsLoadedMsg logs e) =
     (case e of
        Some er \<Rightarrow>
          Inr (m\<lparr>logsViewport :=
                   viewport_SetContent (viewport_bottom L) (''Error: '' @ er) (logsViewport m)\<rparr>, [])
      | None \<Rightarrow>
          Inr (m\<lparr>logsViewport :=
                   viewport_GotoBottom (viewport_bottom L)
                     (viewport_SetContent (viewport_bottom L) logs (logsViewport m))\<rparr>, []))"
| "Update L B m (podMetricsLoadedMsg metrics e) =
     (case e of
        Some er \<Rightarrow>
          (let m1 = m\<lparr>currentMetrics := None\<rparr>
           in Inr (m1\<lparr>statsViewport :=
                        viewport_SetContent (viewport_bottom L)
                          (''Metrics unavailable for '' @ selectedResource m1 @ metricsNote)
                          (statsViewport m1)\<rparr>, []))
      | None \<Rightarrow>
          (let m1 = m\<lparr>currentMetrics := metrics\<rparr>
           in Inr (m1\<lparr>statsViewport :=
                        viewport_SetContent (viewport_bottom L) (renderStats m1)
                          (statsViewport m1)\<rparr>, [])))"
| "Update L B m (podEnvVarsLoadedMsg envVars e) =
     (case e of
        Some er \<Rightarrow>
          (let m1 = m\<lparr>currentEnvVars := None\<rparr>
           in Inr (m1\<lparr>envViewport :=
                        viewport_SetContent (viewport_bottom L)
                          (''Error loading environment variables: '' @ er)
                          (envViewport m1)\<rparr>, []))
      | None \<Rightarrow>
          (let m1 = m\<lparr>currentEnvVars := envVars\<rparr>
           in Inr (m1\<lparr>envViewport :=
                        viewport_SetContent (viewport_bottom L) (renderEnv m1)
                          (envViewport m1)\<rparr>, [])))"
| "Update L B m (resourceYAMLLoadedMsg y e) =
     (case e of
        Some er \<Rightarrow>
          (let m1 = m\<lparr>currentYAML := ''Error loading YAML: '' @ er\<rparr>
           in Inr (m1\<lparr>configViewport :=
                        viewport_SetContent (viewport_bottom L) (currentYAML m1)
                          (configViewport m1)\<rparr>, []))
      | None \<Rightarrow>
          (let m1 = m\<lparr>currentYAML := y\<rparr>
           in Inr (m1\<lparr>configViewport :=
                        viewport_SetContent (viewport_bottom L) (renderConfig m1)
                          (configViewport m1)\<rparr>, [])))"
| "Update L B m tickMsg = Inr (m, [loadDeployments m, loadPods m, loadServices m, tick])"
| "Update L B m (WindowSizeMsg w h) = Inr (Update_windowSize L m w h, [])"
| "Update L B m (otherMsg n) = Update_lists L m (otherMsg n)"

section \<open>The event loop\<close>

text \<open>
  The runtime holds the model and the commands that were returned and have not
  completed yet. One event at a time reaches \<open>Update\<close>: a key press, a resize, a message
  of the runtime itself, or the completion of one pending command, in any order. The
  cluster may answer differently at every event, so each event comes with the answers
  of that moment. A run ends with the first panic.
\<close>

datatype event = KeyPress string | Resize int64 int64 | External nat | Complete nat

definition deliver ::
  "lib \<Rightarrow> backend \<Rightarrow> Model \<Rightarrow> cmd list \<Rightarrow> msg \<Rightarrow> panic + Model \<times> cmd list" where
  "deliver L B m rest msg =
     (case Update L B m msg of
        Inl p \<Rightarrow> Inl p
      | Inr (m', cs) \<Rightarrow> Inr (m', rest @ cs))"

fun step :: "lib \<Rightarrow> backend \<Rightarrow> Model \<times> cmd list \<Rightarrow> event \<Rightarrow> panic + Model \<times> cmd list" where
  "step L B (m, pending) (KeyPress k) = deliver L B m pending (KeyMsg k)"
| "step L B (m, pending) (Resize w h) = deliver L B m pending (WindowSizeMsg w h)"
| "step L B (m, pending) (External n) = deliver L B m pending (otherMsg n)"
| "step L B (m, pending) (Complete i) =
     (if i < length pending then
        (let rest = take i pending @ drop (Suc i) pending
         in case runCmd B (k8sManager m) (pending ! i) of
              None \<Rightarrow> Inr (m, rest)
            | Some msg \<Rightarrow> deliver L B m rest msg)
      else Inr (m, pending))"

fun run ::
  "lib \<Rightarrow> (backend \<times> event) list \<Rightarrow> Model \<times> cmd list \<Rightarrow> panic + Model \<times> cmd list" where
  "run L [] st = Inr st"
| "run L ((B, ev) # es) st =
     (case step L B st ev of
        Inl p \<Rightarrow> Inl p
      | Inr st' \<Rightarrow> run L es st')"

definition start :: "error + Manager \<Rightarrow> unit option \<Rightarrow> Model \<times> cmd list" where
  "start k8s sysd = (NewModel k8s sysd, Init (NewModel k8s sysd))"

section \<open>Notions of the specification, read off the model\<close>

text \<open>
  The overlay the model is in. \<open>Update\<close> tests the confirmation flag first and the
  help flag second; the specification's \<open>DialogState\<close> has one value for each.
\<close>

datatype DialogState = NoDialog | Confirm | Help

definition dialogState :: "Model \<Rightarrow> DialogState" where
  "dialogState m =
     (if showConfirmDialog m then Confirm else if showHelp m then Help else NoDialog)"

text \<open>At most one of the two overlays is showing.\<close>

definition oneOverlay :: "Model \<Rightarrow> bool" where
  "oneOverlay m = (\<not> (showConfirmDialog m \<and> showHelp m))"


definition confirmActions :: "string list" where
  "confirmActions = [''delete-pod'', ''delete-deployment'', ''scale-up'', ''scale-down'']"

text \<open>
  The keys with a case of their own in the switch of normal mode. Every other key
  leaves the switch and is handed to the focused list.
\<close>

definition reservedKeys :: "string list" where
  "reservedKeys =
     [''ctrl+c'', ''q'', ''?'', ''tab'', ''shift+tab'', ''1'', ''2'', ''3'', ''4'',
      ''l'', ''s'', ''e'', ''c'', ''t'', ''x'', ''r'', ''enter'', ''d'',
      ''+'', ''='', ''-'', ''_'', ''p'', ''P'']"

text \<open>
  The geometry a frame is drawn with: the widths of the two regions as \<open>View\<close> computes
  them (lines 929 and 930), and the sizes the four list panes and the four viewports
  were given.
\<close>

definition leftPaneWidth :: "Model \<Rightarrow> int64" where
  "leftPaneWidth m = div64 (width m) 3"

definition rightPaneWidth :: "Model \<Rightarrow> int64" where
  "rightPaneWidth m = width m - leftPaneWidth m - 4"



text \<open>
  What holds of every model of a program that started without a manager: the handle is
  \<open>nil\<close> and the Namespaces list has no item.
\<close>

definition offlineInv :: "Model \<Rightarrow> bool" where
  "offlineInv m = (k8sManager m = None \<and> l_items (namespacesList m) = [])"

text \<open>The messages a program without a manager can receive: no successful namespaces load.\<close>

fun offlineMsg :: "msg \<Rightarrow> bool" where
  "offlineMsg (namespacesLoadedMsg ns None) = False"
| "offlineMsg _ = True"

section \<open>Sample values\<close>

text \<open>
  One instance of the libraries: every byte is one column wide, the selected row gets
  no styling, the cursor moves one row down on \<open>down\<close> and \<open>j\<close> and one row up on \<open>up\<close>
  and \<open>k\<close> without leaving the list, and the viewports stay at the top.
\<close>

definition plainCursor :: "msg \<Rightarrow> list_model \<Rightarrow> int" where
  "plainCursor ms l =
     (case ms of
        KeyMsg k \<Rightarrow>
          (if k = ''down'' \<or> k = ''j'' then
             (if l_index l + 1 < int (length (l_items l)) then l_index l + 1 else l_index l)
           else if k = ''up'' \<or> k = ''k'' then
             (if 0 < l_index l then l_index l - 1 else l_index l)
           else l_index l)
      | _ \<Rightarrow> l_index l)"

definition plainLib :: lib where
  "plainLib =
     \<lparr>lipgloss_Width = asciiWidth,
      lipgloss_selected = id,
      list_cursor = plainCursor,
      list_command = (\<lambda>ms l. []),
      list_paginate = l_index,
      viewport_scroll = (\<lambda>ms v. v_YOffset v),
      viewport_command = (\<lambda>ms v. []),
      viewport_bottom = (\<lambda>v. 0)\<rparr>"

text \<open>A cluster whose lists are empty and whose mutating calls all return the given result.\<close>

definition constBackend :: "error option \<Rightarrow> backend" where
  "constBackend r =
     \<lparr>be_ListNamespaces = Inr [],
      be_ListDeployments = (\<lambda>ns. Inr []),
      be_ListPods = (\<lambda>ns. Inr []),
      be_ListServices = (\<lambda>ns. Inr []),
      be_GetPodLogs = (\<lambda>ns name n. Inr []),
      be_GetPodMetrics = (\<lambda>ns name. Inl ''metrics unavailable''),
      be_GetPodEnvVars = (\<lambda>ns name. Inl ''not found''),
      be_GetPodYAML = (\<lambda>ns name. Inr []),
      be_GetDeploymentYAML = (\<lambda>ns name. Inr []),
      be_GetServiceYAML = (\<lambda>ns name. Inr []),
      be_DeletePod = (\<lambda>ns name. r),
      be_DeleteDeployment = (\<lambda>ns name. r),
      be_ScaleDeployment = (\<lambda>ns name n. r),
      be_StartPortForward = (\<lambda>ns name lp rp. Inl ''kubectl not found'')\<rparr>"

definition sampleManager :: Manager where
  "sampleManager = \<lparr>namespace = ''default''\<rparr>"

definition samplePod :: "string \<Rightarrow> PodInfo" where
  "samplePod name =
     \<lparr>pod_Name = name, pod_Namespace = ''default'', pod_Status = ''Running'',
      pod_Ready = ''1/1'', pod_Restarts = 0, pod_Age = []\<rparr>"

definition sampleDeployment :: "int32 \<Rightarrow> DeploymentInfo" where
  "sampleDeployment r =
     \<lparr>dep_Name = ''web'', dep_Namespace = ''default'', dep_Ready = ''1/1'',
      dep_UpToDate = r, dep_Available = r, dep_Replicas = r\<rparr>"

definition sampleService :: ServiceInfo where
  "sampleService =
     \<lparr>svc_Name = ''web-svc'', svc_Namespace = ''default'', svc_Type = ''ClusterIP'',
      svc_ClusterIP = ''10.0.0.7'', svc_ExternalIP = [], svc_Ports = ''80/TCP''\<rparr>"

text \<open>
  A connected dashboard in a terminal of 120 by 40 with its lists loaded: two pods, one
  deployment of \<open>r\<close> replicas and one service. The category \<open>c\<close> is focused, the pod
  \<open>web-7f9c\<close> is the selected resource and the Stats tab is open.
\<close>

definition dashboard :: "CategoryType \<Rightarrow> int32 \<Rightarrow> Model" where
  "dashboard c r =
     (NewModel (Inr sampleManager) None)
       \<lparr>width := 120, height := 40, ready := True,
        activeCategory := c,
        namespacesList := list_New [namespaceItem ''default'', namespaceItem ''kube-system''] 36 5,
        deploymentsList := list_New [deploymentItem (sampleDeployment r)] 36 5,
        podsList := list_New [podItem (samplePod ''web-7f9c''), podItem (samplePod ''api-5d8b'')] 36 5,
        servicesList := list_New [serviceItem sampleService] 36 5,
        selectedResource := ''web-7f9c'',
        selectedResourceType := ''pod'',
        activeTab := StatsTab,
        namespaces := [''default'', ''kube-system''],
        deployments := [sampleDeployment r],
        pods := [samplePod ''web-7f9c'', samplePod ''api-5d8b''],
        services := [sampleService]\<rparr>"

text \<open>
  The dashboard with the Deployments list focused and the deployment \<open>web\<close> as the
  selected resource; the Pods list has \<open>web-7f9c\<close> under its cursor.
\<close>

definition onDeployment :: Model where
  "onDeployment =
     (dashboard DeploymentsCategory 3)
       \<lparr>selectedResource := ''web'', selectedResourceType := ''deployment'',
        activeTab := ConfigTab\<rparr>"

text \<open>The same program when \<open>k8s.NewManager()\<close> failed: the handle is \<open>nil\<close>.\<close>

definition offline :: "Model \<times> cmd list" where
  "offline = start (Inl ''failed to build config'') None"

section \<open>Frame lemmas: what a step leaves alone\<close>

lemmas key_defs = key_jump2_def key_jump3_def key_jump4_def key_enter_def key_delete_def
  key_scaleUp_def key_scaleDown_def key_portForward_def key_stopPortForwards_def

lemma Update_lists_Inr:
  "Update_lists L m msg = Inr (m', cs) \<longleftrightarrow>
     (\<exists>m1 c1. updateActiveList L m msg = Inr (m1, c1) \<and>
        m' = fst (updateActiveViewport L m1 msg) \<and>
        cs = c1 @ snd (updateActiveViewport L m1 msg))"
  by (auto simp: Update_lists_def split: sum.splits prod.splits)


lemma updateActiveViewport_dialog:
  "showConfirmDialog (fst (updateActiveViewport L m msg)) = showConfirmDialog m"
  by (simp add: updateActiveViewport_def viewport_Update_def split: RightPaneTab.splits)

lemma updateActiveList_dialog:
  "updateActiveList L m msg = Inr (m', cs) \<Longrightarrow> showConfirmDialog m' = showConfirmDialog m"
  by (auto simp: updateActiveList_def list_Update_def Let_def
      split: CategoryType.splits option.splits item.splits if_splits)








lemma Update_windowSize_dialog:
  "showConfirmDialog (Update_windowSize L m w h) = showConfirmDialog m"
  by (simp add: Update_windowSize_def Let_def)


section \<open>The modal overlays\<close>


lemmas sample_defs = dashboard_def NewModel_def list_New_def viewport_zero_def viewport_New_def
  sampleManager_def samplePod_def sampleDeployment_def sampleService_def



section \<open>Row truncation\<close>

lemma take_butlast_le: "k \<le> length (butlast str) \<Longrightarrow> take k (butlast str) = take k str"
  by (cases str rule: rev_cases) auto

lemma trimToFit_take: "\<exists>k \<le> length str. trimToFit W maxWidth str = take k str"
proof (induction W maxWidth str rule: trimToFit.induct)
  case (1 W maxWidth str)
  show ?case
  proof (cases "W (str @ ''...'') > maxWidth \<and> length str > 0")
    case True
    with 1 obtain k where k: "k \<le> length (butlast str)"
      "trimToFit W maxWidth (butlast str) = take k (butlast str)"
      by blast
    from k(1) have tk: "take k (butlast str) = take k str"
      by (rule take_butlast_le)
    have "trimToFit W maxWidth str = trimToFit W maxWidth (butlast str)"
      using True by (subst trimToFit.simps) simp
    with k tk have "k \<le> length str \<and> trimToFit W maxWidth str = take k str"
      by simp
    then show ?thesis by blast
  next
    case False
    then have "trimToFit W maxWidth str = str"
      by (subst trimToFit.simps) auto
    then have "length str \<le> length str \<and> trimToFit W maxWidth str = take (length str) str"
      by simp
    then show ?thesis by blast
  qed
qed

lemma trimToFit_exact:
  assumes "\<forall>k < length str. W (take (Suc k) str @ ''...'') \<le> W (take k str @ ''...'') + 1"
    and "W ''...'' \<le> maxWidth"
    and "maxWidth \<le> W (str @ ''...'')"
  shows "W (trimToFit W maxWidth str @ ''...'') = maxWidth"
  using assms
proof (induction W maxWidth str rule: trimToFit.induct)
  case (1 W maxWidth str)
  show ?case
  proof (cases "W (str @ ''...'') > maxWidth \<and> length str > 0")
    case True
    let ?b = "butlast str"
    from True have ne: "str \<noteq> []" by auto
    have len: "length str = Suc (length ?b)"
      using ne by (cases str rule: rev_cases) auto
    have b_take: "take (length ?b) str = ?b"
      by (simp add: butlast_conv_take)
    have steps: "\<forall>k < length ?b. W (take (Suc k) ?b @ ''...'') \<le> W (take k ?b @ ''...'') + 1"
    proof (intro allI impI)
      fix k assume k: "k < length ?b"
      then have e1: "take (Suc k) ?b = take (Suc k) str"
        by (intro take_butlast_le) simp
      from k have e2: "take k ?b = take k str"
        by (intro take_butlast_le) simp
      from k len have "k < length str" by linarith
      with "1.prems"(1) have "W (take (Suc k) str @ ''...'') \<le> W (take k str @ ''...'') + 1"
        by blast
      then show "W (take (Suc k) ?b @ ''...'') \<le> W (take k ?b @ ''...'') + 1"
        unfolding e1 e2 .
    qed
    have "length ?b < length str" using len by linarith
    with "1.prems"(1)
    have "W (take (Suc (length ?b)) str @ ''...'') \<le> W (take (length ?b) str @ ''...'') + 1"
      by blast
    moreover have "take (Suc (length ?b)) str = str"
      using len by simp
    ultimately have "W (str @ ''...'') \<le> W (?b @ ''...'') + 1"
      unfolding b_take by simp
    with True have lower: "maxWidth \<le> W (?b @ ''...'')"
      by linarith
    have "W (trimToFit W maxWidth ?b @ ''...'') = maxWidth"
      using "1.IH" [OF True steps "1.prems"(2) lower] .
    moreover have "trimToFit W maxWidth str = trimToFit W maxWidth ?b"
      using True by (subst trimToFit.simps) simp
    ultimately show ?thesis by simp
  next
    case False
    then have same: "trimToFit W maxWidth str = str"
      by (subst trimToFit.simps) auto
    show ?thesis
    proof (cases "length str > 0")
      case True
      with False have "W (str @ ''...'') \<le> maxWidth" by simp
      with "1.prems"(3) same show ?thesis by simp
    next
      case False
      then have "str = []" by simp
      with "1.prems"(2,3) same show ?thesis by simp
    qed
  qed
qed

text \<open>
  C7, as the code has it. A row no wider than the pane's inner width is rendered
  unchanged, and so is every row, however wide, when the inner width is 3 or less (the
  guard \<open>maxWidth > 3\<close>). A wider row in a pane of inner width above 3 is cut to a prefix
  followed by three dots, and the result is exactly as wide as the pane whenever
  trimming one byte narrows the row by at most one column, the dots fit, and appending
  the dots does not narrow the row: all true of printable ASCII rows, where the width
  is the byte count.
\<close>

theorem fitRow_truncation:
  "(W str \<le> maxWidth \<or> maxWidth \<le> 3 \<longrightarrow> fitRow W maxWidth str = str) \<and>
   (W str > maxWidth \<and> maxWidth > 3 \<longrightarrow>
      (\<exists>k \<le> length str. fitRow W maxWidth str = take k str @ ''...'')) \<and>
   (W str > maxWidth \<and> maxWidth > 3 \<and> W ''...'' \<le> maxWidth \<and> W str \<le> W (str @ ''...'') \<and>
    (\<forall>k < length str. W (take (Suc k) str @ ''...'') \<le> W (take k str @ ''...'') + 1) \<longrightarrow>
      W (fitRow W maxWidth str) = maxWidth)"
proof (intro conjI impI)
  assume "W str \<le> maxWidth \<or> maxWidth \<le> 3"
  then show "fitRow W maxWidth str = str"
    by (auto simp: fitRow_def)
next
  assume "W str > maxWidth \<and> maxWidth > 3"
  then have "fitRow W maxWidth str = trimToFit W maxWidth str @ ''...''"
    by (simp add: fitRow_def)
  with trimToFit_take [of str W maxWidth]
  show "\<exists>k \<le> length str. fitRow W maxWidth str = take k str @ ''...''"
    by auto
next
  assume a: "W str > maxWidth \<and> maxWidth > 3 \<and> W ''...'' \<le> maxWidth \<and> W str \<le> W (str @ ''...'') \<and>
    (\<forall>k < length str. W (take (Suc k) str @ ''...'') \<le> W (take k str @ ''...'') + 1)"
  then have "maxWidth \<le> W (str @ ''...'')" by linarith
  with a have "W (trimToFit W maxWidth str @ ''...'') = maxWidth"
    by (intro trimToFit_exact) blast+
  with a show "W (fitRow W maxWidth str) = maxWidth"
    by (simp add: fitRow_def)
qed

theorem fitRow_truncation_witness:
  "fitRow asciiWidth 20 ''default'' = ''default'' \<and>
   fitRow asciiWidth 3 ''kube-system'' = ''kube-system'' \<and>
   fitRow asciiWidth 8 ''kube-system'' = ''kube-...'' \<and>
   asciiWidth (fitRow asciiWidth 8 ''kube-system'') = 8"
  using fitRow_truncation [of asciiWidth "''default''" 20]
        fitRow_truncation [of asciiWidth "''kube-system''" 3]
        fitRow_truncation [of asciiWidth "''kube-system''" 8]
  by (simp add: asciiWidth_def fitRow_def trimToFit.simps)

theorem fitRow_narrow_pane_counterexample:
  "asciiWidth ''kube-system'' > 3 \<and>
   fitRow asciiWidth 3 ''kube-system'' = ''kube-system'' \<and>
   asciiWidth (fitRow asciiWidth 3 ''kube-system'') \<noteq> 3"
  by (simp add: asciiWidth_def fitRow_def)

section \<open>Properties of the log viewer\<close>

lemma lv_content_SetContent: "lv_content (SetContent bottom lv s) = s"
  by (simp add: SetContent_def Let_def)

text \<open>
  C9. Reading the log viewer back after \<open>SetContent s\<close> returns exactly \<open>s\<close>, for every
  string and every viewer state. \<open>AppendContent n\<close> on a viewer whose content \<open>c\<close> is not
  empty leaves \<open>c\<close>, one newline, then \<open>n\<close>; on a viewer with empty content it leaves
  just \<open>n\<close>.
\<close>

theorem logviewer_round_trip:
  "GetContent (SetContent bottom lv s) = s \<and>
   GetContent (AppendContent bottom lv n) =
     (if GetContent lv = [] then n else GetContent lv @ [CHR 0x0A] @ n)"
  by (simp add: GetContent_def AppendContent_def Let_def lv_content_SetContent)

theorem logviewer_round_trip_witness:
  "GetContent (SetContent (\<lambda>v. 0) (NewLogViewer ''logs'') ''line 1'') = ''line 1'' \<and>
   GetContent (AppendContent (\<lambda>v. 0)
       (SetContent (\<lambda>v. 0) (NewLogViewer ''logs'') ''line 1'') ''line 2'')
     = ''line 1'' @ [CHR 0x0A] @ ''line 2'' \<and>
   GetContent (AppendContent (\<lambda>v. 0) (NewLogViewer ''logs'') ''line 2'') = ''line 2''"
  using logviewer_round_trip [of "\<lambda>v. 0" "NewLogViewer ''logs''" "''line 1''" "''line 2''"]
        logviewer_round_trip [of "\<lambda>v. 0"
          "SetContent (\<lambda>v. 0) (NewLogViewer ''logs'') ''line 1''" "''x''" "''line 2''"]
  by (simp add: GetContent_def lv_content_SetContent NewLogViewer_def)

section \<open>Failure of a confirmed action\<close>

text \<open>
  C8. When the backend call of a confirmed delete-pod, delete-deployment or scale action
  returns an error, \<open>performConfirmedAction\<close> returns the model with nothing but the
  status line changed, which now carries the error, and no command: lists, selection,
  category, tab, viewports and port-forwards are those of the model it was given. The
  key \<open>y\<close> reaches it with the dialog flag already cleared.
\<close>

theorem failed_action_changes_status_only:
  "(k8sManager m = Some mgr \<and> confirmAction m = ''delete-pod'' \<and>
    DeletePod B mgr (confirmResource m) = Some e \<longrightarrow>
      performConfirmedAction B m = (m\<lparr>statusMessage := ''Error deleting pod: '' @ e\<rparr>, [])) \<and>
   (k8sManager m = Some mgr \<and> confirmAction m = ''delete-deployment'' \<and>
    DeleteDeployment B mgr (confirmResource m) = Some e \<longrightarrow>
      performConfirmedAction B m =
        (m\<lparr>statusMessage := ''Error deleting deployment: '' @ e\<rparr>, [])) \<and>
   (k8sManager m = Some mgr \<and> confirmAction m \<in> {''scale-up'', ''scale-down''} \<and>
    ScaleDeployment B mgr (confirmResource m) (confirmReplicas m) = Some e \<longrightarrow>
      performConfirmedAction B m = (m\<lparr>statusMessage := ''Error scaling: '' @ e\<rparr>, [])) \<and>
   (showConfirmDialog m \<and> k \<in> {''y'', ''Y''} \<longrightarrow>
      Update L B m (KeyMsg k) =
        Inr (performConfirmedAction B (m\<lparr>showConfirmDialog := False\<rparr>)))"
proof (intro conjI impI)
  assume "k8sManager m = Some mgr \<and> confirmAction m = ''delete-pod'' \<and>
    DeletePod B mgr (confirmResource m) = Some e"
  then show "performConfirmedAction B m = (m\<lparr>statusMessage := ''Error deleting pod: '' @ e\<rparr>, [])"
    by (simp add: performConfirmedAction_def)
next
  assume "k8sManager m = Some mgr \<and> confirmAction m = ''delete-deployment'' \<and>
    DeleteDeployment B mgr (confirmResource m) = Some e"
  then show "performConfirmedAction B m =
      (m\<lparr>statusMessage := ''Error deleting deployment: '' @ e\<rparr>, [])"
    by (simp add: performConfirmedAction_def)
next
  assume "k8sManager m = Some mgr \<and> confirmAction m \<in> {''scale-up'', ''scale-down''} \<and>
    ScaleDeployment B mgr (confirmResource m) (confirmReplicas m) = Some e"
  then show "performConfirmedAction B m = (m\<lparr>statusMessage := ''Error scaling: '' @ e\<rparr>, [])"
    by (auto simp: performConfirmedAction_def)
next
  assume "showConfirmDialog m \<and> k \<in> {''y'', ''Y''}"
  then show "Update L B m (KeyMsg k) =
      Inr (performConfirmedAction B (m\<lparr>showConfirmDialog := False\<rparr>))"
    by (auto simp: Update_confirmKey_def)
qed

theorem failed_action_changes_status_only_witness:
  "performConfirmedAction (constBackend (Some ''forbidden''))
      ((dashboard DeploymentsCategory 3)\<lparr>confirmAction := ''scale-up'', confirmResource := ''web'',
         confirmReplicas := 4\<rparr>) =
     ((dashboard DeploymentsCategory 3)\<lparr>confirmAction := ''scale-up'', confirmResource := ''web'',
         confirmReplicas := 4, statusMessage := ''Error scaling: forbidden''\<rparr>, []) \<and>
   performConfirmedAction (constBackend (Some ''forbidden''))
      ((dashboard PodsCategory 3)\<lparr>confirmAction := ''delete-pod'',
         confirmResource := ''web-7f9c''\<rparr>) =
     ((dashboard PodsCategory 3)\<lparr>confirmAction := ''delete-pod'', confirmResource := ''web-7f9c'',
         statusMessage := ''Error deleting pod: forbidden''\<rparr>, []) \<and>
   performConfirmedAction (constBackend (Some ''forbidden''))
      ((dashboard DeploymentsCategory 3)\<lparr>confirmAction := ''delete-deployment'',
         confirmResource := ''web''\<rparr>) =
     ((dashboard DeploymentsCategory 3)\<lparr>confirmAction := ''delete-deployment'',
         confirmResource := ''web'',
         statusMessage := ''Error deleting deployment: forbidden''\<rparr>, []) \<and>
   Update plainLib (constBackend (Some ''forbidden''))
      ((dashboard PodsCategory 3)\<lparr>showConfirmDialog := True, confirmAction := ''delete-pod'',
         confirmResource := ''web-7f9c''\<rparr>) (KeyMsg ''y'') =
     Inr ((dashboard PodsCategory 3)\<lparr>showConfirmDialog := False, confirmAction := ''delete-pod'',
         confirmResource := ''web-7f9c'',
         statusMessage := ''Error deleting pod: forbidden''\<rparr>, [])"
  using failed_action_changes_status_only [of
      "(dashboard DeploymentsCategory 3)\<lparr>confirmAction := ''scale-up'', confirmResource := ''web'',
         confirmReplicas := 4\<rparr>" sampleManager "constBackend (Some ''forbidden'')" "''forbidden''"
      "''y''" plainLib]
    failed_action_changes_status_only [of
      "(dashboard PodsCategory 3)\<lparr>confirmAction := ''delete-pod'',
         confirmResource := ''web-7f9c''\<rparr>" sampleManager "constBackend (Some ''forbidden'')"
      "''forbidden''" "''y''" plainLib]
    failed_action_changes_status_only [of
      "(dashboard DeploymentsCategory 3)\<lparr>confirmAction := ''delete-deployment'',
         confirmResource := ''web''\<rparr>" sampleManager "constBackend (Some ''forbidden'')"
      "''forbidden''" "''y''" plainLib]
    failed_action_changes_status_only [of
      "(dashboard PodsCategory 3)\<lparr>showConfirmDialog := True, confirmAction := ''delete-pod'',
         confirmResource := ''web-7f9c''\<rparr>" sampleManager "constBackend (Some ''forbidden'')"
      "''forbidden''" "''y''" plainLib]
  by (simp add: sample_defs DeletePod_def DeleteDeployment_def ScaleDeployment_def
      constBackend_def)

section \<open>The scale dialog\<close>

lemma sint_succ_int32:
  fixes x :: int32
  assumes "sint x < 2147483647"
  shows "sint (x + 1) = sint x + 1"
proof -
  have "- (2 ^ 31) \<le> sint x + 1"
    using sint_ge [of x] by simp
  moreover have "sint x + 1 < 2 ^ 31"
    using assms by simp
  ultimately have "signed_take_bit 31 (sint x + 1) = sint x + 1"
    by (intro signed_take_bit_int_eq_self) simp_all
  then show ?thesis
    by (simp add: sint_word_add)
qed

lemma sint_pred_int32:
  fixes x :: int32
  assumes "0 < sint x"
  shows "sint (x - 1) = sint x - 1"
proof -
  have "- (2 ^ 31) \<le> sint x - 1"
    using assms by simp
  moreover have "sint x - 1 < 2 ^ 31"
    using sint_lt [of x] by simp
  ultimately have "signed_take_bit 31 (sint x - 1) = sint x - 1"
    by (intro signed_take_bit_int_eq_self) simp_all
  then show ?thesis
    by (simp add: sint_word_diff)
qed

lemma NoDialog_flags:
  "dialogState m = NoDialog \<longleftrightarrow> \<not> showConfirmDialog m \<and> \<not> showHelp m"
  by (simp add: dialogState_def)

lemma Update_scaleUp:
  assumes "dialogState m = NoDialog" and "k = ''+'' \<or> k = ''=''"
  shows "Update L B m (KeyMsg k) = Inr (key_scaleUp m)"
  using assms(2) assms(1) [unfolded NoDialog_flags]
  by (elim disjE) (simp_all add: Update_key_def)

lemma Update_scaleDown:
  assumes "dialogState m = NoDialog" and "k = ''-'' \<or> k = ''_''"
  shows "Update L B m (KeyMsg k) = Inr (key_scaleDown m)"
  using assms(2) assms(1) [unfolded NoDialog_flags]
  by (elim disjE) (simp_all add: Update_key_def)

lemma key_scaleUp_selected:
  "activeCategory m = DeploymentsCategory \<and>
   SelectedItem (deploymentsList m) = Some (deploymentItem d) \<Longrightarrow>
     key_scaleUp m =
       (m\<lparr>showConfirmDialog := True, confirmAction := ''scale-up'',
          confirmResource := dep_Name d, confirmReplicas := dep_Replicas d + 1\<rparr>, [])"
  by (simp add: key_scaleUp_def)

lemma key_scaleDown_selected:
  "activeCategory m = DeploymentsCategory \<and>
   SelectedItem (deploymentsList m) = Some (deploymentItem d) \<Longrightarrow>
     key_scaleDown m =
       (if 0 < sint (dep_Replicas d)
        then (m\<lparr>showConfirmDialog := True, confirmAction := ''scale-down'',
                confirmResource := dep_Name d, confirmReplicas := dep_Replicas d - 1\<rparr>, [])
        else (m, []))"
  by (simp add: key_scaleDown_def word_sless_alt)

text \<open>
  C5, on the code. With no overlay showing, the Deployments list focused and a
  deployment \<open>d\<close> under the cursor: a scale-up key opens the dialog with the target
  \<open>Replicas + 1\<close>, added in 32-bit arithmetic with no check against the largest
  count; for every count below 2147483647 that is the count plus one. A scale-down key
  on a count above 0 opens the dialog with the target one less than the count, which
  is not negative; a scale-down key on a count of 0 or less returns the model as it
  was and opens nothing.
\<close>

theorem scale_dialog_targets:
  "dialogState m = NoDialog \<and> activeCategory m = DeploymentsCategory \<and>
   SelectedItem (deploymentsList m) = Some (deploymentItem d) \<longrightarrow>
     (k \<in> {''+'', ''=''} \<longrightarrow>
        Update L B m (KeyMsg k) =
          Inr (m\<lparr>showConfirmDialog := True, confirmAction := ''scale-up'',
                 confirmResource := dep_Name d, confirmReplicas := dep_Replicas d + 1\<rparr>, []) \<and>
        (sint (dep_Replicas d) < 2147483647 \<longrightarrow>
           sint (dep_Replicas d + 1) = sint (dep_Replicas d) + 1)) \<and>
     (k \<in> {''-'', ''_''} \<and> 0 < sint (dep_Replicas d) \<longrightarrow>
        Update L B m (KeyMsg k) =
          Inr (m\<lparr>showConfirmDialog := True, confirmAction := ''scale-down'',
                 confirmResource := dep_Name d, confirmReplicas := dep_Replicas d - 1\<rparr>, []) \<and>
        sint (dep_Replicas d - 1) = sint (dep_Replicas d) - 1 \<and>
        0 \<le> sint (dep_Replicas d - 1)) \<and>
     (k \<in> {''-'', ''_''} \<and> sint (dep_Replicas d) \<le> 0 \<longrightarrow>
        Update L B m (KeyMsg k) = Inr (m, []))"
proof (intro impI conjI)
  assume a: "dialogState m = NoDialog \<and> activeCategory m = DeploymentsCategory \<and>
    SelectedItem (deploymentsList m) = Some (deploymentItem d)"
  then have nd: "dialogState m = NoDialog" by blast
  {
    assume "k \<in> {''+'', ''=''}"
    then have "k = ''+'' \<or> k = ''=''" by blast
    from Update_scaleUp [OF nd this] key_scaleUp_selected [of m d] a
    show "Update L B m (KeyMsg k) =
        Inr (m\<lparr>showConfirmDialog := True, confirmAction := ''scale-up'',
               confirmResource := dep_Name d, confirmReplicas := dep_Replicas d + 1\<rparr>, [])"
      by (simp only:)
  }
  {
    assume "sint (dep_Replicas d) < 2147483647"
    then show "sint (dep_Replicas d + 1) = sint (dep_Replicas d) + 1"
      by (rule sint_succ_int32)
  }
  {
    assume b: "k \<in> {''-'', ''_''} \<and> 0 < sint (dep_Replicas d)"
    then have "k = ''-'' \<or> k = ''_''" by blast
    from Update_scaleDown [OF nd this] key_scaleDown_selected [of m d] a b
    show "Update L B m (KeyMsg k) =
        Inr (m\<lparr>showConfirmDialog := True, confirmAction := ''scale-down'',
               confirmResource := dep_Name d, confirmReplicas := dep_Replicas d - 1\<rparr>, [])"
      by (simp only: if_True)
    from b show s: "sint (dep_Replicas d - 1) = sint (dep_Replicas d) - 1"
      by (intro sint_pred_int32) blast
    from b show "0 \<le> sint (dep_Replicas d - 1)"
      unfolding s by linarith
  }
  {
    assume b: "k \<in> {''-'', ''_''} \<and> sint (dep_Replicas d) \<le> 0"
    then have "k = ''-'' \<or> k = ''_''" by blast
    moreover from b have "\<not> 0 < sint (dep_Replicas d)" by linarith
    ultimately show "Update L B m (KeyMsg k) = Inr (m, [])"
      using Update_scaleDown [OF nd] key_scaleDown_selected [of m d] a
      by (simp only: if_False)
  }
qed

lemma dashboard_deployment_selected:
  "dialogState (dashboard DeploymentsCategory r) = NoDialog \<and>
   activeCategory (dashboard DeploymentsCategory r) = DeploymentsCategory \<and>
   SelectedItem (deploymentsList (dashboard DeploymentsCategory r)) =
     Some (deploymentItem (sampleDeployment r))"
  by (simp add: sample_defs dialogState_def SelectedItem_def)

theorem scale_dialog_targets_witness:
  "Update plainLib (constBackend None) (dashboard DeploymentsCategory 3) (KeyMsg ''+'') =
     Inr ((dashboard DeploymentsCategory 3)\<lparr>showConfirmDialog := True, confirmAction := ''scale-up'',
            confirmResource := ''web'', confirmReplicas := 4\<rparr>, []) \<and>
   Update plainLib (constBackend None) (dashboard DeploymentsCategory 3) (KeyMsg ''-'') =
     Inr ((dashboard DeploymentsCategory 3)\<lparr>showConfirmDialog := True,
            confirmAction := ''scale-down'', confirmResource := ''web'',
            confirmReplicas := 2\<rparr>, []) \<and>
   Update plainLib (constBackend None) (dashboard DeploymentsCategory 0) (KeyMsg ''-'') =
     Inr (dashboard DeploymentsCategory 0, [])"
  using scale_dialog_targets [of "dashboard DeploymentsCategory 3" "sampleDeployment 3" "''+''"
      plainLib "constBackend None"]
    scale_dialog_targets [of "dashboard DeploymentsCategory 3" "sampleDeployment 3" "''-''"
      plainLib "constBackend None"]
    scale_dialog_targets [of "dashboard DeploymentsCategory 0" "sampleDeployment 0" "''-''"
      plainLib "constBackend None"]
    dashboard_deployment_selected [of 3] dashboard_deployment_selected [of 0]
  by (simp add: sampleDeployment_def)

text \<open>
  The scale-up branch has no guard like the one of the scale-down branch. At the
  largest 32-bit count its unchecked addition wraps: the dialog stores -2147483648,
  which is negative and is not the count plus one.
\<close>

theorem scale_up_overflow_counterexample:
  "Update plainLib (constBackend None) (dashboard DeploymentsCategory 2147483647) (KeyMsg ''+'') =
     Inr ((dashboard DeploymentsCategory 2147483647)\<lparr>showConfirmDialog := True,
            confirmAction := ''scale-up'', confirmResource := ''web'',
            confirmReplicas := 2147483647 + 1\<rparr>, []) \<and>
   sint (2147483647 :: int32) = 2147483647 \<and>
   sint (2147483647 + 1 :: int32) = - 2147483648 \<and>
   sint (2147483647 + 1 :: int32) < 0 \<and>
   sint (2147483647 + 1 :: int32) \<noteq> sint (2147483647 :: int32) + 1"
  by (simp add: sample_defs Update_key_def key_scaleUp_def SelectedItem_def)

section \<open>The layout\<close>












text \<open>
  At the smallest 64-bit height, \<open>height - 6\<close> wraps to a large positive number and
  the list panes are given a quarter of it: still at least 3, and the value of the
  code's own expression.
\<close>

lemma sectionHeight_smallest_height:
  "sectionHeight (- 9223372036854775808) = 2305843009213693948"
  by (simp add: sectionHeight_def div64_def Let_def signed_divide_int_def)

section \<open>The key switch, branch by branch\<close>

lemmas load_defs = loadNamespaces_def loadDeployments_def loadPods_def loadServices_def
  loadPodLogs_def loadPodMetrics_def loadPodEnvVars_def loadResourceYAML_def

text \<open>
  The switch on the key, as a rule: a property of all its branches is a property of
  \<open>Update_key\<close>.
\<close>

lemma Update_key_cases:
  assumes "P (Inr (m, [CmdQuit]))"
    and "P (Inr (m\<lparr>showHelp := \<not> showHelp m\<rparr>, []))"
    and "\<And>c. P (Inr (m\<lparr>activeCategory := c\<rparr>, []))"
    and "P (Inr (key_jump2 m))" and "P (Inr (key_jump3 m))" and "P (Inr (key_jump4 m))"
    and "\<And>t. P (Inr (m\<lparr>activeTab := t\<rparr>, []))"
    and "P (Inr (m\<lparr>statusMessage := ''Refreshing...''\<rparr>,
            [CmdLoadNamespaces, CmdLoadDeployments, CmdLoadPods, CmdLoadServices]))"
    and "P (key_enter m)"
    and "P (Inr (key_delete m))" and "P (Inr (key_scaleUp m))" and "P (Inr (key_scaleDown m))"
    and "P (Inr (key_portForward B m))" and "P (Inr (key_stopPortForwards m))"
    and "P (Update_lists L m (KeyMsg k))"
  shows "P (Update_key L B m k)"
proof -
  note d = Update_key_def Let_def load_defs
  consider
      (quit) "k = ''ctrl+c'' \<or> k = ''q''" | (hlp) "k = ''?''"
    | (tab) "k = ''tab''" | (stab) "k = ''shift+tab''" | (j1) "k = ''1''"
    | (j2) "k = ''2''" | (j3) "k = ''3''" | (j4) "k = ''4''"
    | (tl) "k = ''l''" | (ts) "k = ''s''" | (te) "k = ''e''" | (tc) "k = ''c''"
    | (tt) "k = ''t''" | (tx) "k = ''x''" | (refresh) "k = ''r''" | (enter) "k = ''enter''"
    | (del) "k = ''d''" | (up) "k = ''+'' \<or> k = ''=''" | (down) "k = ''-'' \<or> k = ''_''"
    | (pf) "k = ''p''" | (stop) "k = ''P''" | (other) "k \<notin> set reservedKeys"
    by (auto simp: reservedKeys_def)
  then show ?thesis
  proof cases
    case quit
    then have "Update_key L B m k = Inr (m, [CmdQuit])"
      by (elim disjE) (simp_all add: d)
    with assms(1) show ?thesis by simp
  next
    case hlp
    then have "Update_key L B m k = Inr (m\<lparr>showHelp := \<not> showHelp m\<rparr>, [])" by (simp add: d)
    with assms(2) show ?thesis by simp
  next
    case tab
    then have "Update_key L B m k =
        Inr (m\<lparr>activeCategory :=
                category_of_int ((int_of_category (activeCategory m) + 1) smod 4)\<rparr>, [])"
      by (simp add: d)
    with assms(3) show ?thesis by simp
  next
    case stab
    then have "Update_key L B m k =
        Inr (m\<lparr>activeCategory :=
                category_of_int ((int_of_category (activeCategory m) - 1 + 4) smod 4)\<rparr>, [])"
      by (simp add: d)
    with assms(3) show ?thesis by simp
  next
    case j1
    then have "Update_key L B m k = Inr (m\<lparr>activeCategory := NamespacesCategory\<rparr>, [])"
      by (simp add: d)
    with assms(3) show ?thesis by simp
  next
    case j2
    then have "Update_key L B m k = Inr (key_jump2 m)" by (simp add: d)
    with assms(4) show ?thesis by simp
  next
    case j3
    then have "Update_key L B m k = Inr (key_jump3 m)" by (simp add: d)
    with assms(5) show ?thesis by simp
  next
    case j4
    then have "Update_key L B m k = Inr (key_jump4 m)" by (simp add: d)
    with assms(6) show ?thesis by simp
  next
    case tl
    then have "Update_key L B m k = Inr (m\<lparr>activeTab := LogsTab\<rparr>, [])" by (simp add: d)
    with assms(7) show ?thesis by simp
  next
    case ts
    then have "Update_key L B m k = Inr (m\<lparr>activeTab := StatsTab\<rparr>, [])" by (simp add: d)
    with assms(7) show ?thesis by simp
  next
    case te
    then have "Update_key L B m k = Inr (m\<lparr>activeTab := EnvTab\<rparr>, [])" by (simp add: d)
    with assms(7) show ?thesis by simp
  next
    case tc
    then have "Update_key L B m k = Inr (m\<lparr>activeTab := ConfigTab\<rparr>, [])" by (simp add: d)
    with assms(7) show ?thesis by simp
  next
    case tt
    then have "Update_key L B m k = Inr (m\<lparr>activeTab := TopTab\<rparr>, [])" by (simp add: d)
    with assms(7) show ?thesis by simp
  next
    case tx
    then have "Update_key L B m k = Inr (m\<lparr>activeTab := ExecTab\<rparr>, [])" by (simp add: d)
    with assms(7) show ?thesis by simp
  next
    case refresh
    then have "Update_key L B m k = Inr (m\<lparr>statusMessage := ''Refreshing...''\<rparr>,
            [CmdLoadNamespaces, CmdLoadDeployments, CmdLoadPods, CmdLoadServices])"
      by (simp add: d)
    with assms(8) show ?thesis by simp
  next
    case enter
    then have "Update_key L B m k = key_enter m" by (simp add: d)
    with assms(9) show ?thesis by simp
  next
    case del
    then have "Update_key L B m k = Inr (key_delete m)" by (simp add: d)
    with assms(10) show ?thesis by simp
  next
    case up
    then have "Update_key L B m k = Inr (key_scaleUp m)"
      by (elim disjE) (simp_all add: d)
    with assms(11) show ?thesis by simp
  next
    case down
    then have "Update_key L B m k = Inr (key_scaleDown m)"
      by (elim disjE) (simp_all add: d)
    with assms(12) show ?thesis by simp
  next
    case pf
    then have "Update_key L B m k = Inr (key_portForward B m)" by (simp add: d)
    with assms(13) show ?thesis by simp
  next
    case stop
    then have "Update_key L B m k = Inr (key_stopPortForwards m)" by (simp add: d)
    with assms(14) show ?thesis by simp
  next
    case other
    then have "Update_key L B m k = Update_lists L m (KeyMsg k)"
      by (simp add: reservedKeys_def Update_key_def)
    with assms(15) show ?thesis by simp
  qed
qed

section \<open>Switching the category\<close>

lemma Update_normal_key:
  "dialogState m = NoDialog \<Longrightarrow> Update L B m (KeyMsg k) = Update_key L B m k"
  by (simp add: NoDialog_flags)

lemma key_jump2_selected:
  "SelectedItem (deploymentsList m) = Some (deploymentItem d) \<Longrightarrow>
     key_jump2 m =
       (m\<lparr>activeCategory := DeploymentsCategory, selectedResource := dep_Name d,
          selectedResourceType := ''deployment'', activeTab := ConfigTab\<rparr>,
        [CmdLoadResourceYAML ''deployment'' (dep_Name d)])"
  by (simp add: key_jump2_def loadResourceYAML_def)

lemma key_jump3_selected:
  "SelectedItem (podsList m) = Some (podItem p) \<Longrightarrow>
     key_jump3 m =
       (m\<lparr>activeCategory := PodsCategory, selectedResource := pod_Name p,
          selectedResourceType := ''pod'', activeTab := LogsTab\<rparr>,
        [CmdLoadPodLogs (pod_Name p), CmdLoadPodMetrics (pod_Name p),
         CmdLoadPodEnvVars (pod_Name p), CmdLoadResourceYAML ''pod'' (pod_Name p)])"
  by (simp add: key_jump3_def loadResourceYAML_def loadPodLogs_def loadPodMetrics_def
      loadPodEnvVars_def)

lemma key_jump4_selected:
  "SelectedItem (servicesList m) = Some (serviceItem sv) \<Longrightarrow>
     key_jump4 m =
       (m\<lparr>activeCategory := ServicesCategory, selectedResource := svc_Name sv,
          selectedResourceType := ''service'', activeTab := ConfigTab\<rparr>,
        [CmdLoadResourceYAML ''service'' (svc_Name sv)])"
  by (simp add: key_jump4_def loadResourceYAML_def)

text \<open>
  C3, on the code. With no overlay showing, the direct-jump keys \<open>2\<close>, \<open>3\<close> and \<open>4\<close>
  re-derive the selection: they take the name and kind of the item under the cursor of
  the list they enter and return the loads of that category (four loads for a pod, the YAML
  load alone for a deployment or a service). The cycling keys \<open>tab\<close> and \<open>shift+tab\<close>
  do not: they change the focused category and nothing else, and return no command,
  whatever the list they enter has under its cursor.
\<close>

theorem category_switch_keys:
  "dialogState m = NoDialog \<longrightarrow>
     Update L B m (KeyMsg ''tab'') =
       Inr (m\<lparr>activeCategory :=
               category_of_int ((int_of_category (activeCategory m) + 1) smod 4)\<rparr>, []) \<and>
     Update L B m (KeyMsg ''shift+tab'') =
       Inr (m\<lparr>activeCategory :=
               category_of_int ((int_of_category (activeCategory m) - 1 + 4) smod 4)\<rparr>, []) \<and>
     (SelectedItem (deploymentsList m) = Some (deploymentItem d) \<longrightarrow>
        Update L B m (KeyMsg ''2'') =
          Inr (m\<lparr>activeCategory := DeploymentsCategory, selectedResource := dep_Name d,
                 selectedResourceType := ''deployment'', activeTab := ConfigTab\<rparr>,
               [CmdLoadResourceYAML ''deployment'' (dep_Name d)])) \<and>
     (SelectedItem (podsList m) = Some (podItem p) \<longrightarrow>
        Update L B m (KeyMsg ''3'') =
          Inr (m\<lparr>activeCategory := PodsCategory, selectedResource := pod_Name p,
                 selectedResourceType := ''pod'', activeTab := LogsTab\<rparr>,
               [CmdLoadPodLogs (pod_Name p), CmdLoadPodMetrics (pod_Name p),
                CmdLoadPodEnvVars (pod_Name p), CmdLoadResourceYAML ''pod'' (pod_Name p)])) \<and>
     (SelectedItem (servicesList m) = Some (serviceItem sv) \<longrightarrow>
        Update L B m (KeyMsg ''4'') =
          Inr (m\<lparr>activeCategory := ServicesCategory, selectedResource := svc_Name sv,
                 selectedResourceType := ''service'', activeTab := ConfigTab\<rparr>,
               [CmdLoadResourceYAML ''service'' (svc_Name sv)]))"
proof (intro impI conjI)
  assume nd: "dialogState m = NoDialog"
  show "Update L B m (KeyMsg ''tab'') =
       Inr (m\<lparr>activeCategory :=
               category_of_int ((int_of_category (activeCategory m) + 1) smod 4)\<rparr>, [])"
    by (simp only: Update_normal_key [OF nd]) (simp add: Update_key_def)
  show "Update L B m (KeyMsg ''shift+tab'') =
       Inr (m\<lparr>activeCategory :=
               category_of_int ((int_of_category (activeCategory m) - 1 + 4) smod 4)\<rparr>, [])"
    by (simp only: Update_normal_key [OF nd]) (simp add: Update_key_def)
  {
    assume "SelectedItem (deploymentsList m) = Some (deploymentItem d)"
    from key_jump2_selected [OF this]
    show "Update L B m (KeyMsg ''2'') =
          Inr (m\<lparr>activeCategory := DeploymentsCategory, selectedResource := dep_Name d,
                 selectedResourceType := ''deployment'', activeTab := ConfigTab\<rparr>,
               [CmdLoadResourceYAML ''deployment'' (dep_Name d)])"
      by (simp only: Update_normal_key [OF nd]) (simp add: Update_key_def)
  }
  {
    assume "SelectedItem (podsList m) = Some (podItem p)"
    from key_jump3_selected [OF this]
    show "Update L B m (KeyMsg ''3'') =
          Inr (m\<lparr>activeCategory := PodsCategory, selectedResource := pod_Name p,
                 selectedResourceType := ''pod'', activeTab := LogsTab\<rparr>,
               [CmdLoadPodLogs (pod_Name p), CmdLoadPodMetrics (pod_Name p),
                CmdLoadPodEnvVars (pod_Name p), CmdLoadResourceYAML ''pod'' (pod_Name p)])"
      by (simp only: Update_normal_key [OF nd]) (simp add: Update_key_def)
  }
  {
    assume "SelectedItem (servicesList m) = Some (serviceItem sv)"
    from key_jump4_selected [OF this]
    show "Update L B m (KeyMsg ''4'') =
          Inr (m\<lparr>activeCategory := ServicesCategory, selectedResource := svc_Name sv,
                 selectedResourceType := ''service'', activeTab := ConfigTab\<rparr>,
               [CmdLoadResourceYAML ''service'' (svc_Name sv)])"
      by (simp only: Update_normal_key [OF nd]) (simp add: Update_key_def)
  }
qed

theorem category_switch_keys_witness:
  "Update plainLib (constBackend None) onDeployment (KeyMsg ''tab'') =
     Inr (onDeployment\<lparr>activeCategory := PodsCategory\<rparr>, []) \<and>
   selectedResource (onDeployment\<lparr>activeCategory := PodsCategory\<rparr>) = ''web'' \<and>
   selectedResourceType (onDeployment\<lparr>activeCategory := PodsCategory\<rparr>) = ''deployment'' \<and>
   SelectedItem (podsList onDeployment) = Some (podItem (samplePod ''web-7f9c'')) \<and>
   Update plainLib (constBackend None) onDeployment (KeyMsg ''3'') =
     Inr (onDeployment\<lparr>activeCategory := PodsCategory, selectedResource := ''web-7f9c'',
            selectedResourceType := ''pod'', activeTab := LogsTab\<rparr>,
          [CmdLoadPodLogs ''web-7f9c'', CmdLoadPodMetrics ''web-7f9c'',
           CmdLoadPodEnvVars ''web-7f9c'', CmdLoadResourceYAML ''pod'' ''web-7f9c''])"
  using category_switch_keys [of onDeployment plainLib "constBackend None"
      "sampleDeployment 3" "samplePod ''web-7f9c''" sampleService]
  by (simp add: onDeployment_def sample_defs dialogState_def SelectedItem_def
      category_of_int_def signed_modulo_int_def)

section \<open>Moving the cursor\<close>



lemma Update_lists_eq:
  "updateActiveList L m msg = Inr (m1, c1) \<Longrightarrow>
     Update_lists L m msg =
       Inr (fst (updateActiveViewport L m1 msg), c1 @ snd (updateActiveViewport L m1 msg))"
  by (simp add: Update_lists_def split: prod.splits)







section \<open>The refresh timer\<close>

lemma performConfirmedAction_no_tick:
  "CmdTick \<notin> set (snd (performConfirmedAction B m))"
  by (simp add: performConfirmedAction_def Let_def loadPods_def loadDeployments_def
      split: option.splits)

lemma updateActiveViewport_no_tick:
  "CmdTick \<notin> set (snd (updateActiveViewport L m msg))"
  by (auto simp: updateActiveViewport_def viewport_Update_def split: RightPaneTab.splits)

lemma updateActiveList_no_tick:
  "updateActiveList L m msg = Inr (m', cs) \<Longrightarrow> CmdTick \<notin> set cs"
  by (auto simp: updateActiveList_def list_Update_def Let_def load_defs
      split: CategoryType.splits option.splits item.splits if_splits)

lemma Update_lists_no_tick:
  "Update_lists L m msg = Inr (m', cs) \<Longrightarrow> CmdTick \<notin> set cs"
  by (auto simp: Update_lists_Inr updateActiveViewport_no_tick dest: updateActiveList_no_tick)

lemma key_simple_no_tick:
  "CmdTick \<notin> set (snd (key_jump2 m))"
  "CmdTick \<notin> set (snd (key_jump3 m))"
  "CmdTick \<notin> set (snd (key_jump4 m))"
  "CmdTick \<notin> set (snd (key_delete m))"
  "CmdTick \<notin> set (snd (key_scaleUp m))"
  "CmdTick \<notin> set (snd (key_scaleDown m))"
  "CmdTick \<notin> set (snd (key_portForward B m))"
  "CmdTick \<notin> set (snd (key_stopPortForwards m))"
  by (simp_all add: key_defs Let_def load_defs
      split: option.splits item.splits sum.splits)

lemma key_enter_no_tick:
  "key_enter m = Inr r \<Longrightarrow> CmdTick \<notin> set (snd r)"
  by (auto simp: key_enter_def Let_def load_defs
      split: CategoryType.splits option.splits item.splits)

lemma Update_key_no_tick:
  "\<forall>r. Update_key L B m k = Inr r \<longrightarrow> CmdTick \<notin> set (snd r)"
proof (rule Update_key_cases)
  show "\<forall>r. key_enter m = Inr r \<longrightarrow> CmdTick \<notin> set (snd r)"
    by (simp add: key_enter_no_tick)
  show "\<forall>r. Update_lists L m (KeyMsg k) = Inr r \<longrightarrow> CmdTick \<notin> set (snd r)"
    using Update_lists_no_tick [of L m "KeyMsg k"] by auto
qed (simp_all add: key_simple_no_tick)

lemma Update_confirmKey_no_tick:
  "CmdTick \<notin> set (snd (Update_confirmKey B m k))"
  by (simp add: Update_confirmKey_def performConfirmedAction_no_tick)

lemma Update_helpKey_no_tick:
  "CmdTick \<notin> set (snd (Update_helpKey m k))"
  by (simp add: Update_helpKey_def)

lemma Update_ticks:
  assumes "Update L B m msg = Inr (m', cs)"
  shows "count_list cs CmdTick = (if msg = tickMsg then 1 else 0)"
proof (cases msg)
  case (KeyMsg k)
  have "CmdTick \<notin> set cs"
  proof (cases "showConfirmDialog m")
    case True
    with assms KeyMsg have "cs = snd (Update_confirmKey B m k)" by auto
    then show ?thesis by (simp add: Update_confirmKey_no_tick)
  next
    case False
    show ?thesis
    proof (cases "showHelp m")
      case True
      with assms KeyMsg \<open>\<not> showConfirmDialog m\<close> have "cs = snd (Update_helpKey m k)" by auto
      then show ?thesis by (simp add: Update_helpKey_no_tick)
    next
      case False
      with assms KeyMsg \<open>\<not> showConfirmDialog m\<close> have "Update_key L B m k = Inr (m', cs)"
        by simp
      with Update_key_no_tick [of L B m k] show ?thesis by simp
    qed
  qed
  with KeyMsg show ?thesis by (simp add: count_list_0_iff)
next
  case tickMsg
  with assms show ?thesis by (auto simp: load_defs tick_def)
next
  case (otherMsg n)
  with assms have "CmdTick \<notin> set cs" by (auto dest: Update_lists_no_tick)
  with otherMsg show ?thesis by (simp add: count_list_0_iff)
qed (use assms in \<open>auto simp: Let_def split: option.splits if_splits\<close>)

lemma runCmd_tick: "runCmd B mgr c = Some tickMsg \<longleftrightarrow> c = CmdTick"
  by (cases c; cases mgr) (auto split: sum.splits)

lemma count_list_remove_nth:
  assumes "i < length xs"
  shows "count_list (take i xs @ drop (Suc i) xs) x + (if xs ! i = x then 1 else 0) = count_list xs x"
proof -
  have "count_list xs x = count_list (take i xs @ xs ! i # drop (Suc i) xs) x"
    using assms by (simp add: id_take_nth_drop [symmetric])
  then show ?thesis by simp
qed

lemma deliver_ticks:
  assumes "deliver L B m rest msg = Inr (m', pending')"
  shows "count_list pending' CmdTick = count_list rest CmdTick + (if msg = tickMsg then 1 else 0)"
proof -
  from assms obtain cs where u: "Update L B m msg = Inr (m', cs)" and p: "pending' = rest @ cs"
    by (auto simp: deliver_def split: sum.splits)
  from Update_ticks [OF u] p show ?thesis by simp
qed

lemma step_one_tick:
  assumes "step L B (m, pending) ev = Inr (m', pending')" and "count_list pending CmdTick = 1"
  shows "count_list pending' CmdTick = 1"
proof (cases ev)
  case (KeyPress k)
  with assms deliver_ticks [of L B m pending "KeyMsg k" m' pending'] show ?thesis by simp
next
  case (Resize w h)
  with assms deliver_ticks [of L B m pending "WindowSizeMsg w h" m' pending'] show ?thesis by simp
next
  case (External n)
  with assms deliver_ticks [of L B m pending "otherMsg n" m' pending'] show ?thesis by simp
next
  case (Complete i)
  show ?thesis
  proof (cases "i < length pending")
    case False
    with assms Complete show ?thesis by simp
  next
    case True
    let ?rest = "take i pending @ drop (Suc i) pending"
    have rm: "count_list ?rest CmdTick + (if pending ! i = CmdTick then 1 else 0) = 1"
      using count_list_remove_nth [OF True, of CmdTick] assms(2) by simp
    show ?thesis
    proof (cases "runCmd B (k8sManager m) (pending ! i)")
      case None
      then have "pending ! i \<noteq> CmdTick" by auto
      with assms(1) Complete True None rm show ?thesis by (simp add: Let_def)
    next
      case (Some msg)
      with assms(1) Complete True have "deliver L B m ?rest msg = Inr (m', pending')"
        by (simp add: Let_def)
      from deliver_ticks [OF this] have
        "count_list pending' CmdTick = count_list ?rest CmdTick + (if msg = tickMsg then 1 else 0)" .
      moreover have "msg = tickMsg \<longleftrightarrow> pending ! i = CmdTick"
        using Some runCmd_tick [of B "k8sManager m" "pending ! i"] by auto
      ultimately show ?thesis using rm by simp
    qed
  qed
qed

lemma run_one_tick:
  "run L es st = Inr st' \<Longrightarrow> count_list (snd st) CmdTick = 1 \<Longrightarrow> count_list (snd st') CmdTick = 1"
proof (induction es arbitrary: st)
  case Nil
  then show ?case by simp
next
  case (Cons be es)
  obtain B ev where be: "be = (B, ev)" by (cases be)
  from Cons.prems(1) be obtain st1 where s: "step L B st ev = Inr st1" and r: "run L es st1 = Inr st'"
    by (auto split: sum.splits)
  from s Cons.prems(2) have "count_list (snd st1) CmdTick = 1"
    using step_one_tick [of L B "fst st" "snd st" ev "fst st1" "snd st1"] by simp
  with Cons.IH [OF r] show ?case .
qed

lemma start_one_tick: "count_list (snd (start k8s sysd)) CmdTick = 1"
  by (simp add: start_def Init_def load_defs tick_def)

text \<open>
  C4, as the code has it. On a timer tick the reducer returns the model unchanged and
  exactly four commands: the loads of deployments, pods and services, and one new
  timer. It does not reload the namespaces. In every state the event loop reaches from
  the start of the program, whatever the events and their order, exactly one timer is
  among the pending commands.
\<close>

theorem periodic_refresh:
  "Update L B m tickMsg = Inr (m, [CmdLoadDeployments, CmdLoadPods, CmdLoadServices, CmdTick]) \<and>
   (run L es (start k8s sysd) = Inr (m', pending) \<longrightarrow> count_list pending CmdTick = 1)"
proof (intro conjI impI)
  show "Update L B m tickMsg = Inr (m, [CmdLoadDeployments, CmdLoadPods, CmdLoadServices, CmdTick])"
    by (simp add: load_defs tick_def)
  assume "run L es (start k8s sysd) = Inr (m', pending)"
  from run_one_tick [OF this start_one_tick] show "count_list pending CmdTick = 1"
    by simp
qed

lemma sample_run_tick:
  "run plainLib [(constBackend None, Complete 4), (constBackend None, Complete 0)]
      (start (Inr sampleManager) None) =
     Inr ((NewModel (Inr sampleManager) None)\<lparr>namespacesList := list_New [] 0 0\<rparr>,
          [CmdLoadDeployments, CmdLoadPods, CmdLoadServices,
           CmdLoadDeployments, CmdLoadPods, CmdLoadServices, CmdTick])"
  by (simp add: start_def Init_def load_defs tick_def deliver_def NewModel_def list_New_def
      viewport_zero_def viewport_New_def sampleManager_def constBackend_def SetItems_def
      plainLib_def Let_def)

theorem periodic_refresh_witness:
  "Update plainLib (constBackend None) (dashboard PodsCategory 3) tickMsg =
     Inr (dashboard PodsCategory 3, [CmdLoadDeployments, CmdLoadPods, CmdLoadServices, CmdTick]) \<and>
   count_list [CmdLoadDeployments, CmdLoadPods, CmdLoadServices,
               CmdLoadDeployments, CmdLoadPods, CmdLoadServices, CmdTick] CmdTick = 1"
  using periodic_refresh [of plainLib "constBackend None" "dashboard PodsCategory 3"
      "[(constBackend None, Complete 4), (constBackend None, Complete 0)]"
      "Inr sampleManager" None
      "(NewModel (Inr sampleManager) None)\<lparr>namespacesList := list_New [] 0 0\<rparr>"
      "[CmdLoadDeployments, CmdLoadPods, CmdLoadServices,
        CmdLoadDeployments, CmdLoadPods, CmdLoadServices, CmdTick]"]
    sample_run_tick
  by simp

text \<open>The commands of a tick, on the sample dashboard: the namespaces load is not among them.\<close>

theorem tick_omits_namespaces_counterexample:
  "Update plainLib (constBackend None) (dashboard PodsCategory 3) tickMsg =
     Inr (dashboard PodsCategory 3, [CmdLoadDeployments, CmdLoadPods, CmdLoadServices, CmdTick]) \<and>
   CmdLoadNamespaces \<notin> set [CmdLoadDeployments, CmdLoadPods, CmdLoadServices, CmdTick]"
  by (simp add: load_defs tick_def)

section \<open>A program whose manager failed to initialize\<close>

lemma SelectedItem_no_items: "l_items l = [] \<Longrightarrow> SelectedItem l = None"
  by (simp add: SelectedItem_def)

lemma performConfirmedAction_offline:
  "offlineInv m \<Longrightarrow> offlineInv (fst (performConfirmedAction B m))"
  by (simp add: offlineInv_def performConfirmedAction_def)

lemma key_simple_offline:
  "offlineInv m \<Longrightarrow> offlineInv (fst (key_jump2 m))"
  "offlineInv m \<Longrightarrow> offlineInv (fst (key_jump3 m))"
  "offlineInv m \<Longrightarrow> offlineInv (fst (key_jump4 m))"
  "offlineInv m \<Longrightarrow> offlineInv (fst (key_delete m))"
  "offlineInv m \<Longrightarrow> offlineInv (fst (key_scaleUp m))"
  "offlineInv m \<Longrightarrow> offlineInv (fst (key_scaleDown m))"
  "offlineInv m \<Longrightarrow> offlineInv (fst (key_portForward B m))"
  "offlineInv m \<Longrightarrow> offlineInv (fst (key_stopPortForwards m))"
  by (simp_all add: offlineInv_def key_defs Let_def split: option.splits item.splits sum.splits)

lemma key_enter_offline:
  "offlineInv m \<Longrightarrow> \<exists>r. key_enter m = Inr r \<and> offlineInv (fst r)"
  by (auto simp: offlineInv_def key_enter_def Let_def SelectedItem_no_items
      split: CategoryType.splits option.splits item.splits)

lemma updateActiveList_offline:
  "offlineInv m \<Longrightarrow> \<exists>r. updateActiveList L m msg = Inr r \<and> offlineInv (fst r)"
  by (auto simp: offlineInv_def updateActiveList_def list_Update_def Let_def
      SelectedItem_no_items split: CategoryType.splits option.splits item.splits)

lemma updateActiveViewport_offline:
  "offlineInv m \<Longrightarrow> offlineInv (fst (updateActiveViewport L m msg))"
  by (simp add: offlineInv_def updateActiveViewport_def viewport_Update_def
      split: RightPaneTab.splits)

lemma Update_lists_offline:
  assumes "offlineInv m"
  shows "\<exists>r. Update_lists L m msg = Inr r \<and> offlineInv (fst r)"
proof -
  from updateActiveList_offline [OF assms, of L msg]
  obtain m1 c1 where u: "updateActiveList L m msg = Inr (m1, c1)" and i: "offlineInv m1"
    by auto
  from u have "Update_lists L m msg =
      Inr (fst (updateActiveViewport L m1 msg), c1 @ snd (updateActiveViewport L m1 msg))"
    by (rule Update_lists_eq)
  with updateActiveViewport_offline [OF i, of L msg] show ?thesis by simp
qed

lemma Update_key_offline:
  assumes "offlineInv m"
  shows "\<exists>r. Update_key L B m k = Inr r \<and> offlineInv (fst r)"
proof (rule Update_key_cases)
  show "\<exists>r. key_enter m = Inr r \<and> offlineInv (fst r)"
    using assms by (rule key_enter_offline)
  show "\<exists>r. Update_lists L m (KeyMsg k) = Inr r \<and> offlineInv (fst r)"
    using assms by (rule Update_lists_offline)
qed (use assms in \<open>simp_all add: key_simple_offline\<close>, simp_all add: offlineInv_def)

lemma Update_windowSize_offline:
  "offlineInv m \<Longrightarrow> offlineInv (Update_windowSize L m w h)"
  by (simp add: offlineInv_def Update_windowSize_def Let_def SetSize_def)

lemma Update_offline:
  assumes "offlineInv m" and "offlineMsg msg"
  shows "\<exists>r. Update L B m msg = Inr r \<and> offlineInv (fst r)"
proof (cases msg)
  case (KeyMsg k)
  show ?thesis
  proof (cases "showConfirmDialog m")
    case True
    have "offlineInv (fst (Update_confirmKey B m k))"
      using assms(1) performConfirmedAction_offline [of "m\<lparr>showConfirmDialog := False\<rparr>" B]
      by (simp add: Update_confirmKey_def offlineInv_def)
    with True KeyMsg show ?thesis by simp
  next
    case False
    show ?thesis
    proof (cases "showHelp m")
      case True
      have "offlineInv (fst (Update_helpKey m k))"
        using assms(1) by (simp add: Update_helpKey_def offlineInv_def)
      with True False KeyMsg show ?thesis by simp
    next
      case nh: False
      with False KeyMsg Update_key_offline [OF assms(1), of L B k] show ?thesis by simp
    qed
  qed
next
  case (namespacesLoadedMsg ns e)
  with assms show ?thesis by (cases e) (simp_all add: offlineInv_def)
next
  case (WindowSizeMsg w h)
  with Update_windowSize_offline [OF assms(1)] show ?thesis by simp
next
  case (otherMsg n)
  with Update_lists_offline [OF assms(1)] show ?thesis by simp
qed (use assms(1) in \<open>auto simp: offlineInv_def Let_def split: option.splits\<close>)

lemma runCmd_offline: "runCmd B None c = Some msg \<Longrightarrow> offlineMsg msg"
  by (cases c) auto

lemma deliver_offline:
  assumes "offlineInv m" and "offlineMsg msg"
  shows "\<exists>st. deliver L B m rest msg = Inr st \<and> offlineInv (fst st)"
  using Update_offline [OF assms, of L B] by (auto simp: deliver_def)

lemma step_offline:
  assumes "offlineInv (fst st)"
  shows "\<exists>st'. step L B st ev = Inr st' \<and> offlineInv (fst st')"
proof -
  obtain m pending where st: "st = (m, pending)" by (cases st)
  with assms have i: "offlineInv m" by simp
  then have mgr: "k8sManager m = None" by (simp add: offlineInv_def)
  show ?thesis
  proof (cases ev)
    case (KeyPress k)
    with st deliver_offline [OF i, of "KeyMsg k" L B pending] show ?thesis by simp
  next
    case (Resize w h)
    with st deliver_offline [OF i, of "WindowSizeMsg w h" L B pending] show ?thesis by simp
  next
    case (External n)
    with st deliver_offline [OF i, of "otherMsg n" L B pending] show ?thesis by simp
  next
    case (Complete j)
    show ?thesis
    proof (cases "j < length pending")
      case False
      with st Complete i show ?thesis by simp
    next
      case True
      show ?thesis
      proof (cases "runCmd B None (pending ! j)")
        case None
        with st Complete True i mgr show ?thesis by (simp add: Let_def)
      next
        case (Some msg)
        from runCmd_offline [OF Some] have "offlineMsg msg" .
        from deliver_offline [OF i this, of L B "take j pending @ drop (Suc j) pending"]
        show ?thesis using st Complete True mgr Some by (simp add: Let_def)
      qed
    qed
  qed
qed

lemma run_offline:
  "offlineInv (fst st) \<Longrightarrow> \<exists>st'. run L es st = Inr st' \<and> offlineInv (fst st')"
proof (induction es arbitrary: st)
  case Nil
  then show ?case by simp
next
  case (Cons be es)
  obtain B ev where be: "be = (B, ev)" by (cases be)
  from step_offline [OF Cons.prems, of L B ev]
  obtain st1 where s: "step L B st ev = Inr st1" and i: "offlineInv (fst st1)" by blast
  from Cons.IH [OF i] s be show ?case by simp
qed

lemma start_offline: "offlineInv (fst (start (Inl e) sysd))"
  by (simp add: start_def NewModel_def offlineInv_def list_New_def)

text \<open>
  The two calls of \<open>SetNamespace\<close> have no \<open>nil\<close> check of their own: on a model with
  a \<open>nil\<close> handle and a namespace under the cursor, \<open>enter\<close> panics. No run of a program
  that started without a manager reaches such a model, since its Namespaces list is
  never filled.
\<close>

lemma key_enter_unguarded:
  "k8sManager m = None \<Longrightarrow> activeCategory m = NamespacesCategory \<Longrightarrow>
   SelectedItem (namespacesList m) = Some (namespaceItem name) \<Longrightarrow>
     key_enter m = Inl NilPointerDereference"
  by (simp add: key_enter_def)

text \<open>
  C2. With a \<open>nil\<close> manager handle, each of the eight load commands delivers an error
  result carrying "k8s manager not initialized"; a confirmed action sets the status
  line to that error and issues nothing, and the port-forward keys change nothing. A
  program that started with a failed manager never panics: for every sequence of key
  presses, resizes, runtime messages and command completions, in any order, the event
  loop returns a model, and its handle is still \<open>nil\<close>.
\<close>

theorem nil_manager_never_panics:
  "runCmd B None CmdLoadNamespaces = Some (namespacesLoadedMsg [] (Some notInitialized)) \<and>
   runCmd B None CmdLoadDeployments = Some (deploymentsLoadedMsg [] (Some notInitialized)) \<and>
   runCmd B None CmdLoadPods = Some (podsLoadedMsg [] (Some notInitialized)) \<and>
   runCmd B None CmdLoadServices = Some (servicesLoadedMsg [] (Some notInitialized)) \<and>
   runCmd B None (CmdLoadPodLogs name) = Some (podLogsLoadedMsg [] (Some notInitialized)) \<and>
   runCmd B None (CmdLoadPodMetrics name) = Some (podMetricsLoadedMsg None (Some notInitialized)) \<and>
   runCmd B None (CmdLoadPodEnvVars name) = Some (podEnvVarsLoadedMsg None (Some notInitialized)) \<and>
   runCmd B None (CmdLoadResourceYAML ty name) =
     Some (resourceYAMLLoadedMsg [] (Some notInitialized)) \<and>
   (k8sManager m = None \<longrightarrow>
      (confirmAction m \<in> set confirmActions \<longrightarrow>
         performConfirmedAction B m =
           (m\<lparr>statusMessage := ''Error: k8s manager not initialized''\<rparr>, [])) \<and>
      key_portForward B m = (m, []) \<and> key_stopPortForwards m = (m, [])) \<and>
   (\<exists>m' pending. run L es (start (Inl e) sysd) = Inr (m', pending) \<and> k8sManager m' = None)"
proof (intro conjI impI)
  assume n: "k8sManager m = None"
  show "key_portForward B m = (m, [])"
    using n by (simp add: key_portForward_def split: option.splits item.splits)
  show "key_stopPortForwards m = (m, [])"
    using n by (simp add: key_stopPortForwards_def)
  assume "confirmAction m \<in> set confirmActions"
  with n show "performConfirmedAction B m =
      (m\<lparr>statusMessage := ''Error: k8s manager not initialized''\<rparr>, [])"
    by (auto simp: performConfirmedAction_def confirmActions_def)
next
  have "offlineInv (fst (start (Inl e) sysd))"
    by (rule start_offline)
  from run_offline [OF this, of L es]
  show "\<exists>m' pending. run L es (start (Inl e) sysd) = Inr (m', pending) \<and> k8sManager m' = None"
    by (auto simp: offlineInv_def)
qed simp_all

lemma offline_run:
  "run plainLib
      [(constBackend None, Complete 0), (constBackend None, KeyPress ''enter''),
       (constBackend None, KeyPress ''down''), (constBackend None, KeyPress ''p'')] offline =
     Inr ((NewModel (Inl ''failed to build config'') None)
            \<lparr>statusMessage := ''Error loading namespaces: k8s manager not initialized''\<rparr>,
          [CmdLoadDeployments, CmdLoadPods, CmdLoadServices, CmdTick])"
  by (simp add: offline_def start_def Init_def load_defs tick_def deliver_def NewModel_def
      list_New_def viewport_zero_def viewport_New_def notInitialized_def
      Update_key_def key_enter_def key_portForward_def SelectedItem_def Update_lists_def
      updateActiveList_def updateActiveViewport_def list_Update_def viewport_Update_def
      plainLib_def plainCursor_def Let_def)

theorem nil_manager_never_panics_witness:
  "runCmd (constBackend None) None CmdLoadPods =
     Some (podsLoadedMsg [] (Some ''k8s manager not initialized'')) \<and>
   performConfirmedAction (constBackend None)
       ((NewModel (Inl ''failed to build config'') None)\<lparr>confirmAction := ''delete-pod''\<rparr>) =
     ((NewModel (Inl ''failed to build config'') None)
        \<lparr>confirmAction := ''delete-pod'',
         statusMessage := ''Error: k8s manager not initialized''\<rparr>, []) \<and>
   run plainLib
      [(constBackend None, Complete 0), (constBackend None, KeyPress ''enter''),
       (constBackend None, KeyPress ''down''), (constBackend None, KeyPress ''p'')] offline =
     Inr ((NewModel (Inl ''failed to build config'') None)
            \<lparr>statusMessage := ''Error loading namespaces: k8s manager not initialized''\<rparr>,
          [CmdLoadDeployments, CmdLoadPods, CmdLoadServices, CmdTick])"
  using nil_manager_never_panics [of "constBackend None" "''web''" "''pod''"
      "(NewModel (Inl ''failed to build config'') None)\<lparr>confirmAction := ''delete-pod''\<rparr>"
      plainLib
      "[(constBackend None, Complete 0), (constBackend None, KeyPress ''enter''),
        (constBackend None, KeyPress ''down''), (constBackend None, KeyPress ''p'')]"
      "''failed to build config''" None]
    offline_run
  by (simp add: notInitialized_def NewModel_def confirmActions_def)

section \<open>At most one overlay\<close>

lemma performConfirmedAction_help:
  "showHelp (fst (performConfirmedAction B m)) = showHelp m"
  by (simp add: performConfirmedAction_def Let_def split: option.splits)

lemma key_simple_overlay:
  "oneOverlay m \<Longrightarrow> \<not> showHelp m \<Longrightarrow> oneOverlay (fst (key_jump2 m))"
  "oneOverlay m \<Longrightarrow> \<not> showHelp m \<Longrightarrow> oneOverlay (fst (key_jump3 m))"
  "oneOverlay m \<Longrightarrow> \<not> showHelp m \<Longrightarrow> oneOverlay (fst (key_jump4 m))"
  "oneOverlay m \<Longrightarrow> \<not> showHelp m \<Longrightarrow> oneOverlay (fst (key_delete m))"
  "oneOverlay m \<Longrightarrow> \<not> showHelp m \<Longrightarrow> oneOverlay (fst (key_scaleUp m))"
  "oneOverlay m \<Longrightarrow> \<not> showHelp m \<Longrightarrow> oneOverlay (fst (key_scaleDown m))"
  "oneOverlay m \<Longrightarrow> \<not> showHelp m \<Longrightarrow> oneOverlay (fst (key_portForward B m))"
  "oneOverlay m \<Longrightarrow> \<not> showHelp m \<Longrightarrow> oneOverlay (fst (key_stopPortForwards m))"
  by (simp_all add: oneOverlay_def key_defs Let_def split: option.splits item.splits sum.splits)

lemma key_enter_overlay:
  "\<not> showHelp m \<Longrightarrow> \<forall>r. key_enter m = Inr r \<longrightarrow> oneOverlay (fst r)"
  by (auto simp: oneOverlay_def key_enter_def Let_def
      split: CategoryType.splits option.splits item.splits)

lemma updateActiveList_help:
  "updateActiveList L m msg = Inr (m', cs) \<Longrightarrow> showHelp m' = showHelp m"
  by (auto simp: updateActiveList_def list_Update_def Let_def
      split: CategoryType.splits option.splits item.splits if_splits)

lemma updateActiveViewport_help:
  "showHelp (fst (updateActiveViewport L m msg)) = showHelp m"
  by (simp add: updateActiveViewport_def viewport_Update_def split: RightPaneTab.splits)

lemma Update_lists_overlay:
  assumes "oneOverlay m"
  shows "\<forall>r. Update_lists L m msg = Inr r \<longrightarrow> oneOverlay (fst r)"
proof (intro allI impI)
  fix r assume "Update_lists L m msg = Inr r"
  then have u: "Update_lists L m msg = Inr (fst r, snd r)" by simp
  from u [unfolded Update_lists_Inr] obtain m1 c1 where
    a: "updateActiveList L m msg = Inr (m1, c1)" and f: "fst r = fst (updateActiveViewport L m1 msg)"
    by blast
  from updateActiveList_help [OF a] updateActiveList_dialog [OF a] f assms
  show "oneOverlay (fst r)"
    by (simp add: oneOverlay_def updateActiveViewport_help updateActiveViewport_dialog)
qed

lemma Update_key_overlay:
  assumes "\<not> showConfirmDialog m" and "\<not> showHelp m"
  shows "\<forall>r. Update_key L B m k = Inr r \<longrightarrow> oneOverlay (fst r)"
proof -
  from assms have o: "oneOverlay m" by (simp add: oneOverlay_def)
  show ?thesis
  proof (rule Update_key_cases)
    show "\<forall>r. key_enter m = Inr r \<longrightarrow> oneOverlay (fst r)"
      using assms(2) by (rule key_enter_overlay)
    show "\<forall>r. Update_lists L m (KeyMsg k) = Inr r \<longrightarrow> oneOverlay (fst r)"
      using o by (rule Update_lists_overlay)
  qed (use o assms in \<open>simp_all add: key_simple_overlay\<close>, simp_all add: oneOverlay_def)
qed

lemma Update_windowSize_help:
  "showHelp (Update_windowSize L m w h) = showHelp m"
  by (simp add: Update_windowSize_def Let_def)

lemma Update_overlay:
  assumes "Update L B m msg = Inr (m', cs)" and "oneOverlay m"
  shows "oneOverlay m'"
proof (cases msg)
  case (KeyMsg k)
  show ?thesis
  proof (cases "showConfirmDialog m")
    case True
    with assms KeyMsg have "m' = fst (Update_confirmKey B m k)" by auto
    moreover from True assms(2) have "\<not> showHelp m" by (simp add: oneOverlay_def)
    ultimately show ?thesis
      by (simp add: Update_confirmKey_def oneOverlay_def performConfirmedAction_help)
  next
    case False
    show ?thesis
    proof (cases "showHelp m")
      case True
      with assms KeyMsg False have "m' = fst (Update_helpKey m k)" by auto
      with False show ?thesis by (simp add: Update_helpKey_def oneOverlay_def)
    next
      case nh: False
      with assms(1) KeyMsg False have "Update_key L B m k = Inr (m', cs)" by simp
      with Update_key_overlay [OF False nh, of L B k] show ?thesis by simp
    qed
  qed
next
  case (otherMsg n)
  with assms Update_lists_overlay [OF assms(2), of L "otherMsg n"] show ?thesis by simp
next
  case (WindowSizeMsg w h)
  with assms show ?thesis
    by (auto simp: oneOverlay_def Update_windowSize_dialog Update_windowSize_help)
qed (use assms in \<open>auto simp: oneOverlay_def Let_def split: option.splits if_splits\<close>)

lemma step_overlay:
  assumes "step L B st ev = Inr st'" and "oneOverlay (fst st)"
  shows "oneOverlay (fst st')"
proof -
  obtain m pending where st: "st = (m, pending)" by (cases st)
  have d: "oneOverlay (fst st')" if "deliver L B m rest msg = Inr st'" for rest msg
  proof -
    from that obtain cs where "Update L B m msg = Inr (fst st', cs)"
      by (auto simp: deliver_def split: sum.splits)
    from Update_overlay [OF this] assms(2) st show ?thesis by simp
  qed
  show ?thesis
  proof (cases ev)
    case (Complete i)
    with assms st d show ?thesis
      by (auto simp: Let_def split: if_splits option.splits)
  qed (use assms st d in auto)
qed

text \<open>
  In every model the event loop reaches, the confirmation dialog and the help screen are
  not both showing: the help-screen state of the specification is the help flag.
\<close>

lemma overlays_exclusive:
  assumes "run L es (start k8s sysd) = Inr (m, pending)"
  shows "\<not> (showConfirmDialog m \<and> showHelp m)"
proof -
  have r: "run L es st = Inr st' \<Longrightarrow> oneOverlay (fst st) \<Longrightarrow> oneOverlay (fst st')" for st st'
  proof (induction es arbitrary: st)
    case Nil
    then show ?case by simp
  next
    case (Cons be es)
    obtain B ev where be: "be = (B, ev)" by (cases be)
    from Cons.prems(1) be obtain st1 where s: "step L B st ev = Inr st1"
      and t: "run L es st1 = Inr st'"
      by (auto split: sum.splits)
    from step_overlay [OF s Cons.prems(2)] have "oneOverlay (fst st1)" .
    with Cons.IH [OF t] show ?case by blast
  qed
  have "oneOverlay (fst (start k8s sysd))"
    by (simp add: start_def NewModel_def oneOverlay_def)
  from r [OF assms this] show ?thesis by (simp add: oneOverlay_def)
qed

end
